theory Spec2Isabelle
  imports Main "HOL-Library.Word"
begin

section \<open>Data model of the monster decision engine (monster.cpp)\<close>

text \<open>
  The embedding follows \<^verbatim>\<open>Monster\<close> of monster.cpp. The headers of the repository
  (position, creature, monster type) are not among the sources, so the few helpers
  they declare are given here as documented definitions or taken as parameters.
  Shared pointers are identified with the creature id they point to; a null pointer
  or an expired weak pointer is \<open>None\<close>.
\<close>

text \<open>Modelled from the spec: the \<^verbatim>\<open>Position\<close> type (grid coordinates x, y and the
  z-plane) is declared in a header that is not among the sources. The fields hold the
  values of the unsigned coordinates (16 bits for x and y, 8 bits for z); where the code
  builds a position from a computed coordinate, the conversion to 16 bits is written
  out (\<open>u16\<close> below).\<close>

record Position =
  pos_x :: int
  pos_y :: int
  pos_z :: int

text \<open>Modelled from the spec: \<^verbatim>\<open>Position::getOffsetX/Y\<close> (signed offset from the
  second position to the first) and \<^verbatim>\<open>Position::getDistanceX/Y\<close> (its absolute value),
  whose maximum is the Chebyshev distance.\<close>

definition u16 :: "int \<Rightarrow> int" where
  "u16 i = i mod 65536"

definition getOffsetX :: "Position \<Rightarrow> Position \<Rightarrow> int" where
  "getOffsetX p1 p2 = pos_x p1 - pos_x p2"

definition getOffsetY :: "Position \<Rightarrow> Position \<Rightarrow> int" where
  "getOffsetY p1 p2 = pos_y p1 - pos_y p2"

definition getDistanceX :: "Position \<Rightarrow> Position \<Rightarrow> int" where
  "getDistanceX p1 p2 = \<bar>getOffsetX p1 p2\<bar>"

definition getDistanceY :: "Position \<Rightarrow> Position \<Rightarrow> int" where
  "getDistanceY p1 p2 = \<bar>getOffsetY p1 p2\<bar>"

datatype Direction =
  DIRECTION_NORTH | DIRECTION_EAST | DIRECTION_SOUTH | DIRECTION_WEST
  | DIRECTION_SOUTHWEST | DIRECTION_SOUTHEAST | DIRECTION_NORTHWEST | DIRECTION_NORTHEAST

datatype CreatureKind = KindPlayer | KindMonster | KindNpc

text \<open>What the monster code reads from another creature through the
  \<^verbatim>\<open>Creature\<close> interface: \<^verbatim>\<open>getID\<close>, \<^verbatim>\<open>getPlayer\<close>/\<^verbatim>\<open>getMonster\<close> (the kind),
  \<^verbatim>\<open>getMaster\<close>, \<^verbatim>\<open>getFaction\<close>, \<^verbatim>\<open>getPosition\<close>, \<^verbatim>\<open>getHealth\<close>, \<^verbatim>\<open>getName\<close>,
  for a monster its \<^verbatim>\<open>totalPlayersOnScreen\<close>,
  \<^verbatim>\<open>isRemoved\<close>, \<^verbatim>\<open>isAttackable\<close>, \<^verbatim>\<open>getZoneType() == ZONE_PROTECTION\<close>, and for
  players the flag \<^verbatim>\<open>IgnoredByMonsters\<close> and \<^verbatim>\<open>isDisconnected\<close>.\<close>

record Creature =
  cid :: nat
  kind :: CreatureKind
  c_master :: "nat option"
  c_faction :: nat
  c_position :: Position
  c_health :: int
  c_totalPlayersOnScreen :: int
  c_name :: string
  c_removed :: bool
  c_attackable :: bool
  c_inProtectionZone :: bool
  ignoredByMonsters :: bool
  disconnected :: bool

text \<open>The table of live creatures: an id that no longer resolves is a vanished
  creature.\<close>

type_synonym world = "nat \<Rightarrow> Creature option"

text \<open>Modelled from the spec: the enum \<^verbatim>\<open>Faction_t\<close> is declared in a header that is
  not among the sources; the default faction is the zero faction.\<close>

definition FACTION_DEFAULT :: nat where
  "FACTION_DEFAULT = 0"

definition FACTION_PLAYER :: nat where
  "FACTION_PLAYER = 1"

record spellBlock_t =
  spell :: "nat option"
  isMelee :: bool
  sb_speed :: "32 word"
  sb_range :: "32 word"
  sb_chance :: "32 word"
  sb_minCombatValue :: int
  sb_maxCombatValue :: int

record summonBlock_t =
  sm_name :: string
  sm_speed :: "32 word"
  sm_count :: "32 word"
  sm_chance :: "32 word"
  sm_force :: bool

text \<open>The fields of \<^verbatim>\<open>mType->info\<close> (and \<^verbatim>\<open>mType->name\<close>) that the modelled
  functions read.\<close>

record MonsterType =
  mt_name :: string
  changeTargetSpeed :: "32 word"
  changeTargetChance :: int
  mt_targetDistance :: int
  strategiesTargetNearest :: int
  strategiesTargetHealth :: int
  strategiesTargetDamage :: int
  attackSpells :: "spellBlock_t list"
  defenseSpells :: "spellBlock_t list"
  maxSummons :: "32 word"
  summons :: "summonBlock_t list"

text \<open>The monster's own state. \<open>hostile\<close> and \<open>fleeing\<close> stand for the results of
  \<^verbatim>\<open>isHostile()\<close> and \<^verbatim>\<open>isFleeing()\<close>, \<open>conditions\<close> for the list of active
  status-effect conditions, \<open>spawnMonster\<close> for the spawn pointer being non-null.
  \<open>castLog\<close> records the calls of \<^verbatim>\<open>castSpell\<close> (spell, target) and \<open>creatureCheck\<close> the
  registration in the game's active-tick set; \<open>dead\<close> is set by \<^verbatim>\<open>setDead\<close>.\<close>

record Monster =
  mid :: nat
  mType :: MonsterType
  m_name :: string
  position :: Position
  masterPos :: Position
  spawnMonster :: bool
  health :: int
  removed :: bool
  master :: "nat option"
  m_summons :: "nat option list"
  faction :: nat
  hostile :: bool
  fleeing :: bool
  conditions :: "nat list"
  targetList :: "nat list"
  friendList :: "nat list"
  totalPlayersOnScreen :: int
  attackedCreature :: "nat option"
  followCreature :: "nat option"
  hasFollowPath :: bool
  isIdle :: bool
  isWalkingBack :: bool
  targetDistance :: int
  attackTicks :: "32 word"
  defenseTicks :: "32 word"
  extraMeleeAttack :: bool
  lastMeleeAttack :: int
  minCombatValue :: int
  maxCombatValue :: int
  targetChangeTicks :: "32 word"
  m_targetChangeCooldown :: "32 word"
  challengeFocusDuration :: "32 word"
  stepDuration :: int
  castLog :: "(nat \<times> nat) list"
  creatureCheck :: bool
  dead :: bool

subsection \<open>Creature helpers\<close>

text \<open>Modelled from the spec: \<^verbatim>\<open>getPlayer\<close>, \<^verbatim>\<open>getMonster\<close>, \<^verbatim>\<open>getMaster\<close> and
  \<^verbatim>\<open>isSummon\<close> belong to the creature header, which is not among the sources. A
  creature is a summon exactly when its master reference resolves to a live
  creature.\<close>

definition getPlayer :: "Creature \<Rightarrow> Creature option" where
  "getPlayer c = (if kind c = KindPlayer then Some c else None)"

definition getMonster :: "Creature \<Rightarrow> Creature option" where
  "getMonster c = (if kind c = KindMonster then Some c else None)"

definition c_getMaster :: "world \<Rightarrow> Creature \<Rightarrow> Creature option" where
  "c_getMaster w c = (case c_master c of None \<Rightarrow> None | Some i \<Rightarrow> w i)"

definition c_isSummon :: "world \<Rightarrow> Creature \<Rightarrow> bool" where
  "c_isSummon w c = (c_getMaster w c \<noteq> None)"

definition getMaster :: "world \<Rightarrow> Monster \<Rightarrow> Creature option" where
  "getMaster w m = (case master m of None \<Rightarrow> None | Some i \<Rightarrow> w i)"

definition isSummon :: "world \<Rightarrow> Monster \<Rightarrow> bool" where
  "isSummon w m = (getMaster w m \<noteq> None)"

section \<open>Target registry: friends and opponents\<close>

text \<open>\<^verbatim>\<open>Monster::isFriend\<close>. \<open>isPartner p q\<close> stands for
  \<^verbatim>\<open>Player::isPartner\<close> of player \<open>p\<close> asked about player \<open>q\<close> (party membership, kept
  by the player code). Pointer comparison is comparison of ids.\<close>

definition isFriend :: "world \<Rightarrow> (nat \<Rightarrow> nat \<Rightarrow> bool) \<Rightarrow> Monster \<Rightarrow> Creature \<Rightarrow> bool" where
  "isFriend w isPartner m creature =
    (let fallthrough = (getMonster creature \<noteq> None \<and> \<not> c_isSummon w creature) in
     case getMaster w m of
       None \<Rightarrow> fallthrough
     | Some mst \<Rightarrow>
        (case getPlayer mst of
           None \<Rightarrow> fallthrough
         | Some masterPlayer \<Rightarrow>
            (let tmpPlayer =
               (case getPlayer creature of
                  Some p \<Rightarrow> Some p
                | None \<Rightarrow>
                   (case c_getMaster w creature of
                      None \<Rightarrow> None
                    | Some creatureMaster \<Rightarrow> getPlayer creatureMaster))
             in case tmpPlayer of
                  None \<Rightarrow> fallthrough
                | Some tp \<Rightarrow>
                    if cid tp = cid mst \<or> isPartner (cid masterPlayer) (cid tp) then True
                    else fallthrough)))"

text \<open>\<^verbatim>\<open>Monster::isOpponent\<close>. \<open>isEnemyFaction\<close> stands for the monster's
  \<^verbatim>\<open>isEnemyFaction\<close> (declared in the monster header).\<close>

definition isOpponent :: "world \<Rightarrow> (nat \<Rightarrow> bool) \<Rightarrow> Monster \<Rightarrow> Creature option \<Rightarrow> bool" where
  "isOpponent w isEnemyFaction m cr =
    (case cr of
       None \<Rightarrow> False
     | Some creature \<Rightarrow>
        (case (case getMaster w m of None \<Rightarrow> None | Some mst \<Rightarrow>
                 (case getPlayer mst of None \<Rightarrow> None | Some _ \<Rightarrow> Some mst)) of
           Some mst \<Rightarrow> cid creature \<noteq> cid mst
         | None \<Rightarrow>
            if getPlayer creature \<noteq> None \<and> ignoredByMonsters creature then False
            else if faction m \<noteq> FACTION_DEFAULT then
              isEnemyFaction (c_faction creature) \<or> c_faction creature = FACTION_PLAYER
            else if getPlayer creature \<noteq> None
                 \<or> (case c_getMaster w creature of None \<Rightarrow> False
                     | Some cm \<Rightarrow> getPlayer cm \<noteq> None) then True
            else False))"

section \<open>Lifecycle: idle status\<close>

text \<open>\<^verbatim>\<open>Monster::isInSpawnLocation\<close>; \<^verbatim>\<open>Position()\<close> is the all-zero position.\<close>

definition isInSpawnLocation :: "Monster \<Rightarrow> bool" where
  "isInSpawnLocation m =
     (if \<not> spawnMonster m then True
      else position m = masterPos m
           \<or> masterPos m = \<lparr>pos_x = 0, pos_y = 0, pos_z = 0\<rparr>)"

text \<open>\<^verbatim>\<open>Monster::setIdle\<close>. \<^verbatim>\<open>Game::addCreatureCheck\<close> and
  \<^verbatim>\<open>Game::removeCreatureCheck\<close> are the field \<open>creatureCheck\<close>; \<^verbatim>\<open>onIdleStatus()\<close> is
  creature code outside the sources and touches none of the fields kept here.\<close>

definition setIdle :: "bool \<Rightarrow> Monster \<Rightarrow> Monster" where
  "setIdle idle m =
     (if removed m \<or> health m \<le> 0 then m
      else
        let m1 = m\<lparr>isIdle := idle\<rparr> in
        if \<not> isIdle m1 then m1\<lparr>creatureCheck := True\<rparr>
        else m1\<lparr>targetList := [], friendList := [], creatureCheck := False\<rparr>)"

text \<open>\<^verbatim>\<open>Monster::updateIdleStatus\<close>. The pair is the local \<open>idle\<close> and the monster
  after the branch; \<^verbatim>\<open>setIdle(idle)\<close> is the last statement.\<close>

definition updateIdleStatus :: "world \<Rightarrow> Monster \<Rightarrow> Monster" where
  "updateIdleStatus w m =
     (let (idle, m1) =
        (if conditions m = [] then
           if \<not> isSummon w m \<and> targetList m = [] then
             if isInSpawnLocation m then (True, m)
             else (False, m\<lparr>isWalkingBack := True\<rparr>)
           else
             (case getMaster w m of
                None \<Rightarrow> (False, m)
              | Some mst \<Rightarrow>
                 if ((\<not> isSummon w m \<and> totalPlayersOnScreen m = 0)
                     \<or> (isSummon w m \<and> getMonster mst \<noteq> None
                         \<and> c_totalPlayersOnScreen mst = 0))
                    \<and> faction m \<noteq> FACTION_DEFAULT
                 then (True, m) else (False, m))
         else (False, m))
      in setIdle idle m1)"

section \<open>Combat scheduler: the target-change governor\<close>

datatype TargetSearchType_t =
  TARGETSEARCH_DEFAULT | TARGETSEARCH_NEAREST | TARGETSEARCH_HP
  | TARGETSEARCH_DAMAGE | TARGETSEARCH_RANDOM

text \<open>\<^verbatim>\<open>Monster::onThinkTarget\<close>. \<open>rnd\<close> is the value of
  \<^verbatim>\<open>uniform_random(1, 100)\<close>. The call of \<^verbatim>\<open>searchTarget\<close> is the last statement of
  its branch, so the function returns the monster as the governor leaves it together
  with the argument \<^verbatim>\<open>searchTarget\<close> is called with (\<open>None\<close>: it is not called).
  \<open>interval\<close>, \<open>targetChangeTicks\<close> and \<open>changeTargetSpeed\<close> are \<^verbatim>\<open>uint32_t\<close>;
  \<open>m_targetChangeCooldown\<close> and \<open>challengeFocusDuration\<close> are \<^verbatim>\<open>int32_t\<close>, kept as
  32-bit words and read as signed by \<open>sint\<close>: subtracting the unsigned interval from
  them wraps around.\<close>

definition onThinkTarget ::
  "world \<Rightarrow> 32 word \<Rightarrow> int \<Rightarrow> Monster \<Rightarrow> Monster \<times> TargetSearchType_t option" where
  "onThinkTarget w interval rnd m =
     (if \<not> isSummon w m \<and> changeTargetSpeed (mType m) \<noteq> 0 then
        let (m1, can1) =
              (if 0 < sint (challengeFocusDuration m) then
                 (let d = challengeFocusDuration m - interval in
                  (m\<lparr>challengeFocusDuration := (if sint d \<le> 0 then 0 else d)\<rparr>, False))
               else (m, True));
            (m2, can2) =
              (if 0 < sint (m_targetChangeCooldown m1) then
                 (let c = m_targetChangeCooldown m1 - interval in
                  if sint c \<le> 0 then
                    (m1\<lparr>m_targetChangeCooldown := 0,
                        targetChangeTicks := changeTargetSpeed (mType m1)\<rparr>, can1)
                  else (m1\<lparr>m_targetChangeCooldown := c\<rparr>, False))
               else (m1, can1))
        in
          if can2 then
            let m3 = m2\<lparr>targetChangeTicks := targetChangeTicks m2 + interval\<rparr> in
            if targetChangeTicks m3 \<ge> changeTargetSpeed (mType m3) then
              let m4 = m3\<lparr>targetChangeTicks := 0,
                          m_targetChangeCooldown := changeTargetSpeed (mType m3)\<rparr>;
                  m5 = (if 0 < sint (challengeFocusDuration m4)
                        then m4\<lparr>challengeFocusDuration := 0\<rparr> else m4)
              in
                if changeTargetChance (mType m5) \<ge> rnd then
                  if mt_targetDistance (mType m5) \<le> 1
                  then (m5, Some TARGETSEARCH_RANDOM)
                  else (m5, Some TARGETSEARCH_NEAREST)
                else (m5, None)
            else (m3, None)
          else (m2, None)
      else (m, None))"

text \<open>The governor fires, in the words of the specification: the monster is not a
  summon and has a nonzero change-target speed, it is not focus-locked, no cooldown
  is running or the running one ends with this tick, the accumulated ticks reach the
  change-target speed, and the chance roll passes. The arithmetic is that of the
  32-bit counters: the cooldown left after the tick is read as signed, and the
  accumulated ticks plus the interval wrap around.\<close>

definition governorFires :: "world \<Rightarrow> 32 word \<Rightarrow> int \<Rightarrow> Monster \<Rightarrow> bool" where
  "governorFires w interval rnd m =
     (\<not> isSummon w m \<and> changeTargetSpeed (mType m) \<noteq> 0
      \<and> \<not> 0 < sint (challengeFocusDuration m)
      \<and> (\<not> 0 < sint (m_targetChangeCooldown m)
          \<or> sint (m_targetChangeCooldown m - interval) \<le> 0)
      \<and> changeTargetSpeed (mType m)
           \<le> (if 0 < sint (m_targetChangeCooldown m) then changeTargetSpeed (mType m)
               else targetChangeTicks m) + interval
      \<and> rnd \<le> changeTargetChance (mType m))"

section \<open>Attack reach\<close>

text \<open>A value converted to \<^verbatim>\<open>uint32_t\<close>.\<close>

definition u32 :: "int \<Rightarrow> 32 word" where
  "u32 i = word_of_int i"

text \<open>\<^verbatim>\<open>getAttackedCreature()\<close>: the attacked-target reference, resolved.\<close>

definition getAttackedCreature :: "world \<Rightarrow> Monster \<Rightarrow> Creature option" where
  "getAttackedCreature w m = (case attackedCreature m of None \<Rightarrow> None | Some i \<Rightarrow> w i)"

text \<open>The loop of \<^verbatim>\<open>Monster::canUseAttack\<close> over the attack abilities: the first one
  that reaches decides by the line of sight.\<close>

fun canUseAttack_spells :: "bool \<Rightarrow> 32 word \<Rightarrow> spellBlock_t list \<Rightarrow> bool" where
  "canUseAttack_spells sightClear distance [] = False"
| "canUseAttack_spells sightClear distance (spellBlock # rest) =
     (if sb_range spellBlock \<noteq> 0 \<and> distance \<le> sb_range spellBlock then sightClear
      else canUseAttack_spells sightClear distance rest)"

text \<open>\<^verbatim>\<open>Monster::canUseAttack\<close>; \<open>isSightClear\<close> is the world query
  \<^verbatim>\<open>g_game().isSightClear(pos, targetPos, true)\<close>.\<close>

definition canUseAttack ::
  "(Position \<Rightarrow> Position \<Rightarrow> bool) \<Rightarrow> Monster \<Rightarrow> Position \<Rightarrow> Creature \<Rightarrow> bool" where
  "canUseAttack isSightClear m pos target =
     (if hostile m then
        let targetPos = c_position target;
            distance = max (u32 (getDistanceX pos targetPos)) (u32 (getDistanceY pos targetPos))
        in canUseAttack_spells (isSightClear pos targetPos) distance (attackSpells (mType m))
      else True)"

section \<open>Movement planner: the dance step\<close>

text \<open>One of the four blocks of \<^verbatim>\<open>Monster::getDanceStep\<close>: the direction \<open>dir\<close> is
  pushed on the list when the step keeps the distance \<open>centerToDist\<close>, the tile can
  be walked to and, with \<open>keepAttack\<close>, the attack is not lost. \<open>sideOk\<close> is the test
  on the offset that opens the block, \<open>tmpDist\<close> the distance after the step and
  \<open>newPos\<close> the position after the step.\<close>

definition danceCandidate ::
  "(Position \<Rightarrow> Position \<Rightarrow> bool) \<Rightarrow> (Position \<Rightarrow> Direction \<Rightarrow> bool) \<Rightarrow> Monster
   \<Rightarrow> Creature \<Rightarrow> Position \<Rightarrow> bool \<Rightarrow> bool \<Rightarrow> bool \<Rightarrow> bool \<Rightarrow> 32 word \<Rightarrow> 32 word
   \<Rightarrow> Direction \<Rightarrow> Position \<Rightarrow> Direction list" where
  "danceCandidate isSightClear canWalkTo m attacked creaturePos keepAttack keepDistance
       canDoAttackNow sideOk tmpDist centerToDist dir newPos =
     (if \<not> keepDistance \<or> sideOk then
        if tmpDist = centerToDist \<and> canWalkTo creaturePos dir then
          let result = (if keepAttack
                        then (\<not> canDoAttackNow \<or> canUseAttack isSightClear m newPos attacked)
                        else True)
          in if result then [dir] else []
        else []
      else [])"

text \<open>\<^verbatim>\<open>Monster::getDanceStep\<close>. \<open>canWalkTo\<close> is the walkability query of the monster,
  \<open>shuffle\<close> the permutation \<^verbatim>\<open>std::shuffle\<close> applies and \<open>rnd\<close> the value of
  \<^verbatim>\<open>uniform_random(0, dirList.size() - 1)\<close>. The result is the returned boolean and the
  value assigned to \<open>moveDirection\<close> (\<open>None\<close>: nothing is assigned). The tile after a
  step is \<^verbatim>\<open>Position(x, y - 1, z)\<close> and its like: the stepped coordinate is converted back
  to 16 bits, while the distance after the step is computed on the signed values.\<close>

definition getDanceStep ::
  "(Position \<Rightarrow> Position \<Rightarrow> bool) \<Rightarrow> (Position \<Rightarrow> Direction \<Rightarrow> bool)
   \<Rightarrow> (Direction list \<Rightarrow> Direction list) \<Rightarrow> nat \<Rightarrow> world \<Rightarrow> Monster
   \<Rightarrow> Position \<Rightarrow> bool \<Rightarrow> bool \<Rightarrow> bool \<times> Direction option" where
  "getDanceStep isSightClear canWalkTo shuffle rnd w m creaturePos keepAttack keepDistance =
     (case getAttackedCreature w m of
        None \<Rightarrow> (False, None)
      | Some attacked \<Rightarrow>
         (let canDoAttackNow = canUseAttack isSightClear m creaturePos attacked;
              centerPos = c_position attacked;
              offset_x = getOffsetX creaturePos centerPos;
              offset_y = getOffsetY creaturePos centerPos;
              distance_x = \<bar>offset_x\<bar>;
              distance_y = \<bar>offset_y\<bar>;
              centerToDist = max (u32 distance_x) (u32 distance_y)
          in
            if centerToDist < u32 (targetDistance m) then (False, None)
            else
              let cand = danceCandidate isSightClear canWalkTo m attacked creaturePos
                           keepAttack keepDistance canDoAttackNow;
                  dirList =
                    cand (offset_y \<ge> 0)
                      (max (u32 distance_x) (u32 \<bar>(pos_y creaturePos - 1) - pos_y centerPos\<bar>))
                      centerToDist DIRECTION_NORTH
                      (creaturePos\<lparr>pos_y := u16 (pos_y creaturePos - 1)\<rparr>)
                    @ cand (offset_y \<le> 0)
                      (max (u32 distance_x) (u32 \<bar>(pos_y creaturePos + 1) - pos_y centerPos\<bar>))
                      centerToDist DIRECTION_SOUTH
                      (creaturePos\<lparr>pos_y := u16 (pos_y creaturePos + 1)\<rparr>)
                    @ cand (offset_x \<le> 0)
                      (max (u32 \<bar>(pos_x creaturePos + 1) - pos_x centerPos\<bar>) (u32 distance_y))
                      centerToDist DIRECTION_EAST
                      (creaturePos\<lparr>pos_x := u16 (pos_x creaturePos + 1)\<rparr>)
                    @ cand (offset_x \<ge> 0)
                      (max (u32 \<bar>(pos_x creaturePos - 1) - pos_x centerPos\<bar>) (u32 distance_y))
                      centerToDist DIRECTION_WEST
                      (creaturePos\<lparr>pos_x := u16 (pos_x creaturePos - 1)\<rparr>)
              in
                if dirList \<noteq> [] then
                  (True, Some (shuffle dirList ! (rnd mod length dirList)))
                else (False, None)))"

section \<open>Movement planner: the direct geometric step\<close>

text \<open>\<^verbatim>\<open>Monster::getRandomStep\<close>: the first walkable direction of the shuffled list of
  the four cardinal directions.\<close>

definition getRandomStep ::
  "(Position \<Rightarrow> Direction \<Rightarrow> bool) \<Rightarrow> (Direction list \<Rightarrow> Direction list) \<Rightarrow> Position
   \<Rightarrow> bool \<times> Direction option" where
  "getRandomStep canWalkTo shuffle creaturePos =
     (case find (canWalkTo creaturePos)
             (shuffle [DIRECTION_NORTH, DIRECTION_WEST, DIRECTION_EAST, DIRECTION_SOUTH]) of
        None \<Rightarrow> (False, None)
      | Some dir \<Rightarrow> (True, Some dir))"

text \<open>The branches of \<^verbatim>\<open>Monster::getDistanceStep\<close> for a target on a diagonal. Each
  returns the boolean result and the value assigned to \<open>moveDirection\<close>, \<open>None\<close> when
  the branch assigns nothing. \<open>cw\<close> is \<^verbatim>\<open>canWalkTo(creaturePos, _)\<close> and \<open>coin\<close> the value
  of \<^verbatim>\<open>boolean_random()\<close> (every path draws at most one).\<close>

definition stepDiagonalNW :: "(Direction \<Rightarrow> bool) \<Rightarrow> bool \<Rightarrow> bool \<Rightarrow> bool \<times> Direction option" where
  "stepDiagonalNW cw coin flee =
     (let s = cw DIRECTION_SOUTH; e = cw DIRECTION_EAST in
      if s \<and> e then (True, Some (if coin then DIRECTION_SOUTH else DIRECTION_EAST))
      else if s then (True, Some DIRECTION_SOUTH)
      else if e then (True, Some DIRECTION_EAST)
      else if cw DIRECTION_SOUTHEAST then (True, Some DIRECTION_SOUTHEAST)
      else
        let n = cw DIRECTION_NORTH; w = cw DIRECTION_WEST in
        if flee \<and> n \<and> w then (True, Some (if coin then DIRECTION_NORTH else DIRECTION_WEST))
        else if flee \<and> n then (True, Some DIRECTION_NORTH)
        else if flee \<and> w then (True, Some DIRECTION_WEST)
        else if w \<and> cw DIRECTION_SOUTHWEST then (True, Some DIRECTION_WEST)
        else if n \<and> cw DIRECTION_NORTHEAST then (True, Some DIRECTION_NORTH)
        else (True, None))"

definition stepDiagonalSE :: "(Direction \<Rightarrow> bool) \<Rightarrow> bool \<Rightarrow> bool \<Rightarrow> bool \<times> Direction option" where
  "stepDiagonalSE cw coin flee =
     (let w = cw DIRECTION_WEST; n = cw DIRECTION_NORTH in
      if w \<and> n then (True, Some (if coin then DIRECTION_WEST else DIRECTION_NORTH))
      else if w then (True, Some DIRECTION_WEST)
      else if n then (True, Some DIRECTION_NORTH)
      else if cw DIRECTION_NORTHWEST then (True, Some DIRECTION_NORTHWEST)
      else
        let s = cw DIRECTION_SOUTH; e = cw DIRECTION_EAST in
        if flee \<and> s \<and> e then (True, Some (if coin then DIRECTION_SOUTH else DIRECTION_EAST))
        else if flee \<and> s then (True, Some DIRECTION_SOUTH)
        else if flee \<and> e then (True, Some DIRECTION_EAST)
        else if s \<and> cw DIRECTION_SOUTHWEST then (True, Some DIRECTION_SOUTH)
        else if e \<and> cw DIRECTION_NORTHEAST then (True, Some DIRECTION_EAST)
        else (True, None))"

definition stepDiagonalSW :: "(Direction \<Rightarrow> bool) \<Rightarrow> bool \<Rightarrow> bool \<Rightarrow> bool \<times> Direction option" where
  "stepDiagonalSW cw coin flee =
     (let n = cw DIRECTION_NORTH; e = cw DIRECTION_EAST in
      if n \<and> e then (True, Some (if coin then DIRECTION_NORTH else DIRECTION_EAST))
      else if n then (True, Some DIRECTION_NORTH)
      else if e then (True, Some DIRECTION_EAST)
      else if cw DIRECTION_NORTHEAST then (True, Some DIRECTION_NORTHEAST)
      else
        let s = cw DIRECTION_SOUTH; w = cw DIRECTION_WEST in
        if flee \<and> s \<and> w then (True, Some (if coin then DIRECTION_SOUTH else DIRECTION_WEST))
        else if flee \<and> s then (True, Some DIRECTION_SOUTH)
        else if flee \<and> w then (True, Some DIRECTION_WEST)
        else if w \<and> cw DIRECTION_NORTHWEST then (True, Some DIRECTION_WEST)
        else if s \<and> cw DIRECTION_SOUTHEAST then (True, Some DIRECTION_SOUTH)
        else (True, None))"

definition stepDiagonalNE :: "(Direction \<Rightarrow> bool) \<Rightarrow> bool \<Rightarrow> bool \<Rightarrow> bool \<times> Direction option" where
  "stepDiagonalNE cw coin flee =
     (let w = cw DIRECTION_WEST; s = cw DIRECTION_SOUTH in
      if w \<and> s then (True, Some (if coin then DIRECTION_WEST else DIRECTION_SOUTH))
      else if w then (True, Some DIRECTION_WEST)
      else if s then (True, Some DIRECTION_SOUTH)
      else if cw DIRECTION_SOUTHWEST then (True, Some DIRECTION_SOUTHWEST)
      else
        let n = cw DIRECTION_NORTH; e = cw DIRECTION_EAST in
        if flee \<and> n \<and> e then (True, Some (if coin then DIRECTION_NORTH else DIRECTION_EAST))
        else if flee \<and> n then (True, Some DIRECTION_NORTH)
        else if flee \<and> e then (True, Some DIRECTION_EAST)
        else if e \<and> cw DIRECTION_SOUTHEAST then (True, Some DIRECTION_EAST)
        else if n \<and> cw DIRECTION_NORTHWEST then (True, Some DIRECTION_NORTH)
        else (True, None))"

text \<open>The four cases of the two switches for a target that is not on a diagonal. They
  share one shape: \<open>away\<close> leads straight away from the target, \<open>a\<close> and \<open>b\<close> are the two
  sideways directions (\<open>a\<close> is taken when the offset \<open>off\<close> on the other axis is \<open>\<le> 0\<close>,
  \<open>b\<close> when it is \<open>\<ge> 0\<close>), \<open>da\<close> and \<open>db\<close> the diagonals away from the target on the side of
  \<open>a\<close> and of \<open>b\<close>, and \<open>toward\<close> leads to the target. A case that ends in \<^verbatim>\<open>break\<close> leaves
  the switch and reaches the final \<^verbatim>\<open>return true\<close> with nothing assigned.\<close>

definition stepAxis ::
  "(Direction \<Rightarrow> bool) \<Rightarrow> bool \<Rightarrow> bool \<Rightarrow> int
   \<Rightarrow> Direction \<Rightarrow> Direction \<Rightarrow> Direction \<Rightarrow> Direction \<Rightarrow> Direction \<Rightarrow> Direction
   \<Rightarrow> bool \<times> Direction option" where
  "stepAxis cw coin flee off away a b da db toward =
     (if cw away then (True, Some away)
      else
        let ca = cw a; cb = cw b in
        if ca \<and> cb \<and> off = 0 then (True, Some (if coin then a else b))
        else if ca \<and> off \<le> 0 then (True, Some a)
        else if cb \<and> off \<ge> 0 then (True, Some b)
        else if flee \<and> ca \<and> cb then (True, Some (if coin then a else b))
        else if flee \<and> ca then (True, Some a)
        else if flee \<and> cb then (True, Some b)
        else
          let cda = cw da; cdb = cw db in
          if cda \<or> cdb then
            (True,
             if cda \<and> cdb then Some (if coin then da else db)
             else if ca then Some a
             else if cda then Some da
             else if cb then Some b
             else if cdb then Some db
             else None)
          else if flee \<and> cw toward then (True, Some toward)
          else (True, None))"

text \<open>The case WEST of the second switch names its directions in another order
  (\<open>s\<close> before \<open>n\<close> among the diagonal fallbacks), so it is written out.\<close>

definition stepAxisWest :: "(Direction \<Rightarrow> bool) \<Rightarrow> bool \<Rightarrow> bool \<Rightarrow> int \<Rightarrow> bool \<times> Direction option" where
  "stepAxisWest cw coin flee offsety =
     (if cw DIRECTION_EAST then (True, Some DIRECTION_EAST)
      else
        let n = cw DIRECTION_NORTH; s = cw DIRECTION_SOUTH in
        if n \<and> s \<and> offsety = 0 then (True, Some (if coin then DIRECTION_NORTH else DIRECTION_SOUTH))
        else if n \<and> offsety \<le> 0 then (True, Some DIRECTION_NORTH)
        else if s \<and> offsety \<ge> 0 then (True, Some DIRECTION_SOUTH)
        else if flee \<and> n \<and> s then (True, Some (if coin then DIRECTION_NORTH else DIRECTION_SOUTH))
        else if flee \<and> n then (True, Some DIRECTION_NORTH)
        else if flee \<and> s then (True, Some DIRECTION_SOUTH)
        else
          let se = cw DIRECTION_SOUTHEAST; ne = cw DIRECTION_NORTHEAST in
          if se \<or> ne then
            (True,
             if se \<and> ne then Some (if coin then DIRECTION_SOUTHEAST else DIRECTION_NORTHEAST)
             else if s then Some DIRECTION_SOUTH
             else if se then Some DIRECTION_SOUTHEAST
             else if n then Some DIRECTION_NORTH
             else if ne then Some DIRECTION_NORTHEAST
             else None)
          else if flee \<and> cw DIRECTION_WEST then (True, Some DIRECTION_WEST)
          else (True, None))"

text \<open>\<^verbatim>\<open>Monster::getDistanceStep\<close>. The result is the returned boolean, the value
  assigned to the output parameter \<open>moveDirection\<close> (\<open>None\<close>: the caller's variable is left
  as it was) and the monster with its \<open>stepDuration\<close> updated. In the switch on
  \<open>playerDir\<close> the case NORTH is \<open>stepAxis\<close> with (SOUTH; WEST, EAST; SOUTHWEST,
  SOUTHEAST; NORTH), the case SOUTH with (NORTH; WEST, EAST; NORTHWEST, NORTHEAST;
  SOUTH) and the case EAST with (WEST; NORTH, SOUTH; NORTHWEST, SOUTHWEST; EAST).\<close>

definition getDistanceStep ::
  "(Position \<Rightarrow> Position \<Rightarrow> bool) \<Rightarrow> (Position \<Rightarrow> Direction \<Rightarrow> bool)
   \<Rightarrow> (Direction list \<Rightarrow> Direction list) \<Rightarrow> bool \<Rightarrow> Monster \<Rightarrow> Position \<Rightarrow> bool
   \<Rightarrow> bool \<times> Direction option \<times> Monster" where
  "getDistanceStep isSightClear canWalkTo shuffle coin m targetPos flee =
     (let creaturePos = position m;
          dx = getDistanceX creaturePos targetPos;
          dy = getDistanceY creaturePos targetPos;
          distance = max dx dy
      in
        if \<not> flee \<and> (distance > targetDistance m \<or> \<not> isSightClear creaturePos targetPos)
        then (False, None, m)
        else if \<not> flee \<and> distance = targetDistance m then (True, None, m)
        else
          let offsetx = getOffsetX creaturePos targetPos;
              offsety = getOffsetY creaturePos targetPos;
              m1 = (if dx \<le> 1 \<and> dy \<le> 1 then
                      (if stepDuration m < 2 then m\<lparr>stepDuration := stepDuration m + 1\<rparr> else m)
                    else if stepDuration m > 0 then m\<lparr>stepDuration := stepDuration m - 1\<rparr>
                    else m);
              cw = canWalkTo creaturePos;
              (res, dir) =
                (if offsetx = 0 \<and> offsety = 0 then getRandomStep canWalkTo shuffle creaturePos
                 else if dx = dy \<and> offsetx \<ge> 1 \<and> offsety \<ge> 1 then stepDiagonalNW cw coin flee
                 else if dx = dy \<and> offsetx \<le> -1 \<and> offsety \<le> -1 then stepDiagonalSE cw coin flee
                 else if dx = dy \<and> offsetx \<ge> 1 \<and> offsety \<le> -1 then stepDiagonalSW cw coin flee
                 else if dx = dy \<and> offsetx \<le> -1 \<and> offsety \<ge> 1 then stepDiagonalNE cw coin flee
                 else if dy > dx then
                   (if offsety < 0
                    then stepAxis cw coin flee offsetx DIRECTION_NORTH DIRECTION_WEST
                           DIRECTION_EAST DIRECTION_NORTHWEST DIRECTION_NORTHEAST DIRECTION_SOUTH
                    else stepAxis cw coin flee offsetx DIRECTION_SOUTH DIRECTION_WEST
                           DIRECTION_EAST DIRECTION_SOUTHWEST DIRECTION_SOUTHEAST DIRECTION_NORTH)
                 else
                   (if offsetx < 0
                    then stepAxis cw coin flee offsety DIRECTION_WEST DIRECTION_NORTH
                           DIRECTION_SOUTH DIRECTION_NORTHWEST DIRECTION_SOUTHWEST DIRECTION_EAST
                    else stepAxisWest cw coin flee offsety))
          in (res, dir, m1))"

section \<open>Combat scheduler: the attack loop\<close>

text \<open>\<^verbatim>\<open>Monster::canUseSpell\<close>. \<open>now\<close> is the value of \<^verbatim>\<open>OTSYS_TIME()\<close> (the function
  reads the clock once on every path). The result is the returned boolean, the output
  parameters \<open>inRange\<close> and \<open>resetTicks\<close> (the latter passed in, as it is only ever
  cleared) and the monster, whose \<open>lastMeleeAttack\<close> may be stamped. The remainder
  \<^verbatim>\<open>attackTicks % sb.speed\<close> with a zero period is undefined in C++: the result is
  \<open>None\<close> there.\<close>

definition canUseSpell ::
  "Monster \<Rightarrow> int \<Rightarrow> Position \<Rightarrow> Position \<Rightarrow> spellBlock_t \<Rightarrow> 32 word \<Rightarrow> bool
   \<Rightarrow> (bool \<times> bool \<times> bool \<times> Monster) option" where
  "canUseSpell m now pos targetPos sb interval resetTicks =
     (if isMelee sb \<and> fleeing m then Some (False, True, resetTicks, m)
      else if \<not> extraMeleeAttack m \<and> isMelee sb \<and> now - lastMeleeAttack m < 1500
      then Some (False, True, resetTicks, m)
      else
        let m1 = (if extraMeleeAttack m then m\<lparr>lastMeleeAttack := now\<rparr> else m);
            tested = (\<not> isMelee sb \<or> \<not> extraMeleeAttack m1)
        in
          if tested \<and> sb_speed sb > attackTicks m1 then Some (False, True, False, m1)
          else if tested \<and> sb_speed sb = 0 then None
          else if tested \<and> attackTicks m1 mod sb_speed sb \<ge> interval
          then Some (False, True, resetTicks, m1)
          else if sb_range sb \<noteq> 0
                  \<and> max (u32 (getDistanceX pos targetPos)) (u32 (getDistanceY pos targetPos))
                      > sb_range sb
          then Some (False, False, resetTicks, m1)
          else Some (True, True, resetTicks, m1))"

text \<open>One round of the loop of \<^verbatim>\<open>Monster::doAttacking\<close> over
  \<^verbatim>\<open>mType->info.attackSpells\<close>, for the ability \<open>spellBlock\<close>. \<open>now\<close> is the clock and
  \<open>roll\<close> the value of \<^verbatim>\<open>uniform_random(1, 30)\<close> in this round. The state of the loop is
  the local \<open>resetTicks\<close> and the monster. \<^verbatim>\<open>castSpell\<close> is recorded in \<open>castLog\<close>; what
  the spell then does to the world, and \<^verbatim>\<open>updateLookDirection\<close>, lie outside.\<close>

definition attackSpellRound ::
  "int \<Rightarrow> int \<Rightarrow> Position \<Rightarrow> Creature \<Rightarrow> 32 word \<Rightarrow> spellBlock_t
   \<Rightarrow> bool \<times> Monster \<Rightarrow> (bool \<times> Monster) option" where
  "attackSpellRound now roll myPos attacked interval spellBlock s =
     (let (resetTicks, m) = s in
      case spell spellBlock of
        None \<Rightarrow> Some (resetTicks, m)
      | Some sp \<Rightarrow>
         if isMelee spellBlock \<and> fleeing m then Some (resetTicks, m)
         else
           (case canUseSpell m now myPos (c_position attacked) spellBlock interval
                   resetTicks of
              None \<Rightarrow> None
            | Some (ok, inRange, resetTicks1, m1) \<Rightarrow>
               let m2 = (if ok \<and> sb_chance spellBlock \<ge> u32 roll then
                           let c = m1\<lparr>minCombatValue := sb_minCombatValue spellBlock,
                                      maxCombatValue := sb_maxCombatValue spellBlock,
                                      castLog := castLog m1 @ [(sp, cid attacked)]\<rparr>
                           in if isMelee spellBlock then c\<lparr>extraMeleeAttack := False\<rparr> else c
                         else m1);
                   m3 = (if \<not> inRange \<and> isMelee spellBlock
                         then m2\<lparr>extraMeleeAttack := True\<rparr> else m2)
               in Some (resetTicks1, m3)))"

text \<open>The loop, from the \<open>i\<close>-th ability on: \<open>now i\<close> and \<open>roll i\<close> are the clock and the
  chance roll of the round of the \<open>i\<close>-th ability.\<close>

fun attackSpellsLoop ::
  "(nat \<Rightarrow> int) \<Rightarrow> (nat \<Rightarrow> int) \<Rightarrow> Position \<Rightarrow> Creature \<Rightarrow> 32 word \<Rightarrow> nat
   \<Rightarrow> spellBlock_t list \<Rightarrow> bool \<times> Monster \<Rightarrow> (bool \<times> Monster) option" where
  "attackSpellsLoop now roll myPos attacked interval i [] s = Some s"
| "attackSpellsLoop now roll myPos attacked interval i (spellBlock # rest) s =
     (case attackSpellRound (now i) (roll i) myPos attacked interval spellBlock s of
        None \<Rightarrow> None
      | Some s1 \<Rightarrow> attackSpellsLoop now roll myPos attacked interval (Suc i) rest s1)"

text \<open>\<^verbatim>\<open>Monster::doAttacking\<close>; \<open>None\<close> is the undefined remainder of \<open>canUseSpell\<close>.\<close>

definition doAttacking ::
  "world \<Rightarrow> (nat \<Rightarrow> int) \<Rightarrow> (nat \<Rightarrow> int) \<Rightarrow> 32 word \<Rightarrow> Monster \<Rightarrow> Monster option" where
  "doAttacking w now roll interval m =
     (case getAttackedCreature w m of
        None \<Rightarrow> Some m
      | Some attacked \<Rightarrow>
         if isSummon w m \<and> cid attacked = mid m then Some m
         else
           let m0 = m\<lparr>attackTicks := attackTicks m + interval\<rparr> in
           (case attackSpellsLoop now roll (position m0) attacked interval 0
                   (attackSpells (mType m0)) (interval \<noteq> 0, m0) of
              None \<Rightarrow> None
            | Some (resetTicks, m1) \<Rightarrow>
               Some (if resetTicks then m1\<lparr>attackTicks := 0\<rparr> else m1)))"

text \<open>The stamping of \<open>lastMeleeAttack\<close> that \<open>canUseSpell\<close> performs while an extra
  swing is pending (used to state what a round leaves behind).\<close>

definition stampLastMelee :: "int \<Rightarrow> Monster \<Rightarrow> Monster" where
  "stampLastMelee now m = (if extraMeleeAttack m then m\<lparr>lastMeleeAttack := now\<rparr> else m)"

section \<open>Target registry: target selection\<close>

text \<open>The collaborators of target selection that live outside monster.cpp:
  the line of sight of the world, \<^verbatim>\<open>canSeeCreature\<close>, \<^verbatim>\<open>isEnemyFaction\<close>, the damage
  totals of \<^verbatim>\<open>damageMap\<close> by attacker id, and the two creature operations
  \<^verbatim>\<open>setAttackedCreature\<close> and \<^verbatim>\<open>setFollowCreature\<close>, each returning its boolean and the
  monster it leaves.\<close>

record TargetEnv =
  e_isSightClear :: "Position \<Rightarrow> Position \<Rightarrow> bool"
  canSeeCreature :: "Creature \<Rightarrow> bool"
  e_isEnemyFaction :: "nat \<Rightarrow> bool"
  damageTotal :: "nat \<Rightarrow> int option"
  setAttackedCreature :: "Creature \<Rightarrow> Monster \<Rightarrow> bool \<times> Monster"
  setFollowCreature :: "Creature \<Rightarrow> Monster \<Rightarrow> bool \<times> Monster"

text \<open>\<^verbatim>\<open>Monster::isTarget\<close>.\<close>

definition isTarget :: "TargetEnv \<Rightarrow> world \<Rightarrow> Monster \<Rightarrow> Creature \<Rightarrow> bool" where
  "isTarget env w m creature =
     (if c_removed creature \<or> \<not> c_attackable creature \<or> c_inProtectionZone creature
         \<or> \<not> canSeeCreature env creature then False
      else if pos_z (c_position creature) \<noteq> pos_z (position m) then False
      else if \<not> isSummon w m then
        if getPlayer creature \<noteq> None \<and> disconnected creature then False
        else if faction m \<noteq> FACTION_DEFAULT then e_isEnemyFaction env (c_faction creature)
        else True
      else True)"

text \<open>\<^verbatim>\<open>Monster::selectTarget\<close>; the target iterator is found when the id is in the
  target list. The attack-check event handed to the dispatcher lies outside.\<close>

definition selectTarget :: "TargetEnv \<Rightarrow> world \<Rightarrow> Creature \<Rightarrow> Monster \<Rightarrow> bool \<times> Monster" where
  "selectTarget env w creature m =
     (if \<not> isTarget env w m creature then (False, m)
      else if cid creature \<notin> set (targetList m) then (False, m)
      else
        let m1 = (if hostile m \<or> isSummon w m
                  then snd (setAttackedCreature env creature m) else m)
        in setFollowCreature env creature m1)"

text \<open>\<^verbatim>\<open>getTargetList()\<close>: the target references that still resolve, in list order.\<close>

definition getTargetList :: "world \<Rightarrow> Monster \<Rightarrow> Creature list" where
  "getTargetList w m = List.map_filter w (targetList m)"

text \<open>The candidate list \<open>resultList\<close> that \<^verbatim>\<open>Monster::searchTarget\<close> builds.\<close>

definition resultList :: "TargetEnv \<Rightarrow> world \<Rightarrow> Monster \<Rightarrow> Creature list" where
  "resultList env w m =
     filter (\<lambda>creature. isTarget env w m creature
                \<and> (targetDistance m = 1
                    \<or> canUseAttack (e_isSightClear env) m (position m) creature))
       (getTargetList w m)"

text \<open>The weighted default of \<^verbatim>\<open>searchTarget\<close>, resolved with \<open>rnd\<close>, the value of
  \<^verbatim>\<open>uniform_random(1, 100)\<close>.\<close>

definition resolveSearchType :: "int \<Rightarrow> MonsterType \<Rightarrow> TargetSearchType_t \<Rightarrow> TargetSearchType_t" where
  "resolveSearchType rnd t searchType =
     (if searchType = TARGETSEARCH_DEFAULT then
        if rnd > strategiesTargetNearest t then
          if rnd > strategiesTargetNearest t + strategiesTargetHealth t then
            if rnd > strategiesTargetNearest t + strategiesTargetHealth t
                     + strategiesTargetDamage t
            then TARGETSEARCH_RANDOM else TARGETSEARCH_DAMAGE
          else TARGETSEARCH_HP
        else TARGETSEARCH_NEAREST
      else searchType)"

text \<open>The do-while loop of the case \<^verbatim>\<open>TARGETSEARCH_NEAREST\<close> over the candidates after
  the first: the state is \<open>getTarget\<close> and \<open>minRange\<close>, \<open>factionOffset\<close> is computed once
  from the first candidate.\<close>

fun nearestLoop :: "Position \<Rightarrow> int \<Rightarrow> Creature list \<Rightarrow> Creature \<times> int \<Rightarrow> Creature" where
  "nearestLoop myPos factionOffset [] (getTarget, minRange) = getTarget"
| "nearestLoop myPos factionOffset (c # rest) (getTarget, minRange) =
     (let distance = max (getDistanceX myPos (c_position c)) (getDistanceY myPos (c_position c))
                     + factionOffset
      in if distance < minRange then nearestLoop myPos factionOffset rest (c, distance)
         else nearestLoop myPos factionOffset rest (getTarget, minRange))"

definition searchNearest :: "Position \<Rightarrow> Creature list \<Rightarrow> Creature option" where
  "searchNearest myPos candidates =
     (case candidates of
        [] \<Rightarrow> None
      | first # rest \<Rightarrow>
         Some (nearestLoop myPos (int (c_faction first) * 100) rest
                 (first, max (getDistanceX myPos (c_position first))
                             (getDistanceY myPos (c_position first)))))"

text \<open>The loop of the case \<^verbatim>\<open>TARGETSEARCH_HP\<close>: the offset added to a candidate's
  health is the one left by the candidate before it.\<close>

fun hpLoop :: "int \<Rightarrow> Creature list \<Rightarrow> Creature \<times> int \<Rightarrow> Creature" where
  "hpLoop factionOffset [] (getTarget, minHp) = getTarget"
| "hpLoop factionOffset (c # rest) (getTarget, minHp) =
     (let hp = c_health c + factionOffset;
          factionOffset1 = int (c_faction c) * 100000
      in if hp < minHp then hpLoop factionOffset1 rest (c, hp)
         else hpLoop factionOffset1 rest (getTarget, minHp))"

definition searchHP :: "Creature list \<Rightarrow> Creature option" where
  "searchHP candidates =
     (case candidates of
        [] \<Rightarrow> None
      | first # rest \<Rightarrow>
         (let factionOffset = int (c_faction first) * 100000
          in Some (hpLoop factionOffset rest (first, c_health first + factionOffset))))"

text \<open>The loop of the case \<^verbatim>\<open>TARGETSEARCH_DAMAGE\<close>.\<close>

fun damageLoop :: "(nat \<Rightarrow> int option) \<Rightarrow> Creature list \<Rightarrow> Creature \<times> int \<Rightarrow> Creature" where
  "damageLoop dmg [] (getTarget, mostDamage) = getTarget"
| "damageLoop dmg (c # rest) (getTarget, mostDamage) =
     (let factionOffset = int (c_faction c) * 100000
      in case dmg (cid c) of
           None \<Rightarrow> damageLoop dmg rest (getTarget, mostDamage)
         | Some dmgTotal \<Rightarrow>
            if dmgTotal + factionOffset > mostDamage then damageLoop dmg rest (c, dmgTotal)
            else damageLoop dmg rest (getTarget, mostDamage))"

definition searchDamage :: "(nat \<Rightarrow> int option) \<Rightarrow> Creature list \<Rightarrow> Creature option" where
  "searchDamage dmg candidates =
     (case candidates of
        [] \<Rightarrow> None
      | first # rest \<Rightarrow> Some (damageLoop dmg rest (first, 0)))"

text \<open>The last statement of \<^verbatim>\<open>searchTarget\<close>: \<^verbatim>\<open>std::ranges::any_of\<close> over the target
  list with \<open>selectTarget\<close>, which stops at the first success.\<close>

fun selectFirst :: "TargetEnv \<Rightarrow> world \<Rightarrow> Creature list \<Rightarrow> Monster \<Rightarrow> bool \<times> Monster" where
  "selectFirst env w [] m = (False, m)"
| "selectFirst env w (c # rest) m =
     (let (ok, m1) = selectTarget env w c m
      in if ok then (True, m1) else selectFirst env w rest m1)"

text \<open>\<^verbatim>\<open>Monster::searchTarget\<close>. \<open>rnd\<close> resolves the weighted default and \<open>idx\<close> is the
  value of \<^verbatim>\<open>uniform_random(0, resultList.size() - 1)\<close> of the random strategy. The
  result is the returned boolean and the monster.\<close>

definition searchTarget ::
  "TargetEnv \<Rightarrow> world \<Rightarrow> int \<Rightarrow> nat \<Rightarrow> TargetSearchType_t \<Rightarrow> Monster \<Rightarrow> bool \<times> Monster" where
  "searchTarget env w rnd idx searchType0 m =
     (let searchType = resolveSearchType rnd (mType m) searchType0;
          myPos = position m;
          candidates = resultList env w m
      in
        if candidates = [] then (False, m)
        else if searchType = TARGETSEARCH_RANDOM \<or> searchType = TARGETSEARCH_DEFAULT then
          selectTarget env w (candidates ! (idx mod length candidates)) m
        else
          (case (case searchType of
                   TARGETSEARCH_NEAREST \<Rightarrow> searchNearest myPos candidates
                 | TARGETSEARCH_HP \<Rightarrow> searchHP candidates
                 | _ \<Rightarrow> searchDamage (damageTotal env) candidates) of
             None \<Rightarrow> selectFirst env w (getTargetList w m) m
           | Some getTarget \<Rightarrow>
              (let (ok, m1) = selectTarget env w getTarget m
               in if ok then (True, m1)
                  else selectFirst env w (getTargetList w m1) m1)))"

text \<open>The Chebyshev distance between two positions, as the statements below name it.\<close>

definition chebyshev :: "Position \<Rightarrow> Position \<Rightarrow> int" where
  "chebyshev p q = max (getDistanceX p q) (getDistanceY p q)"

section \<open>Combat scheduler: the defense loop and summoning\<close>

text \<open>The game as summoning sees it: the table of live creatures and the counter
  \<^verbatim>\<open>Monster::monsterAutoID\<close> from which a placed monster takes its id.\<close>

record Game =
  creatures :: world
  monsterAutoID :: nat













section \<open>Lifecycle: death\<close>

text \<open>Modelled from the spec: \<^verbatim>\<open>Creature::changeHealth\<close> and \<^verbatim>\<open>Creature::removeMaster\<close> are
  creature code outside the sources. \<^verbatim>\<open>summon->changeHealth(-summon->getHealth())\<close>
  force-kills the summon (its health becomes zero) and \<^verbatim>\<open>summon->removeMaster()\<close> releases
  the ownership (its master reference becomes null). The sound and the
  \<^verbatim>\<open>setIdle(false)\<close> of \<^verbatim>\<open>Monster::changeHealth\<close> touch nothing the creature table keeps.\<close>

definition releaseSummon :: "Creature \<Rightarrow> Creature" where
  "releaseSummon summon =
     (let killed = summon\<lparr>c_health := c_health summon + (- c_health summon)\<rparr>
      in killed\<lparr>c_master := None\<rparr>)"

text \<open>The loop of \<^verbatim>\<open>Monster::death\<close> over \<^verbatim>\<open>m_summons\<close>; a null entry is skipped.\<close>

fun releaseSummons :: "nat option list \<Rightarrow> world \<Rightarrow> world" where
  "releaseSummons [] w = w"
| "releaseSummons (None # rest) w = releaseSummons rest w"
| "releaseSummons (Some i # rest) w =
     releaseSummons rest (case w i of None \<Rightarrow> w | Some summon \<Rightarrow> w(i := Some (releaseSummon summon)))"

text \<open>\<^verbatim>\<open>Monster::death\<close>. Modelled from the spec: \<^verbatim>\<open>setAttackedCreature(nullptr)\<close> (creature
  code outside the sources) clears the attacked-target reference. The forge
  bookkeeping, \<^verbatim>\<open>onIdleStatus()\<close> and the death sound lie outside; \<^verbatim>\<open>setDead(true)\<close> is
  the field \<open>dead\<close>.\<close>

definition death :: "Game \<times> Monster \<Rightarrow> Game \<times> Monster" where
  "death s =
     (let (g, m) = s;
          m1 = m\<lparr>attackedCreature := None\<rparr>;
          g1 = g\<lparr>creatures := releaseSummons (m_summons m1) (creatures g)\<rparr>;
          m2 = m1\<lparr>m_summons := []\<rparr>;
          m3 = m2\<lparr>targetList := []\<rparr>;
          m4 = m3\<lparr>friendList := []\<rparr>
      in (g1, m4\<lparr>dead := True\<rparr>))"

section \<open>Concrete values for the closed instances\<close>

definition origin :: Position where
  "origin = \<lparr>pos_x = 0, pos_y = 0, pos_z = 0\<rparr>"

definition mkPos :: "int \<Rightarrow> int \<Rightarrow> int \<Rightarrow> Position" where
  "mkPos a b c = \<lparr>pos_x = a, pos_y = b, pos_z = c\<rparr>"

definition mkCreature :: "nat \<Rightarrow> CreatureKind \<Rightarrow> nat option \<Rightarrow> Position \<Rightarrow> Creature" where
  "mkCreature i k mst p =
     \<lparr>cid = i, kind = k, c_master = mst, c_faction = 0, c_position = p, c_health = 100,
      c_totalPlayersOnScreen = 0,
      c_name = [], c_removed = False, c_attackable = True, c_inProtectionZone = False,
      ignoredByMonsters = False, disconnected = False\<rparr>"

definition plainType :: MonsterType where
  "plainType =
     \<lparr>mt_name = ''rat'', changeTargetSpeed = 0, changeTargetChance = 0, mt_targetDistance = 1,
      strategiesTargetNearest = 0, strategiesTargetHealth = 0, strategiesTargetDamage = 0,
      attackSpells = [], defenseSpells = [], maxSummons = 0, summons = []\<rparr>"

text \<open>A monster as its constructor leaves it, standing at \<open>p\<close> with anchor \<open>p\<close>.\<close>

definition freshMonster :: "nat \<Rightarrow> MonsterType \<Rightarrow> Position \<Rightarrow> Monster" where
  "freshMonster i t p =
     \<lparr>mid = i, mType = t, m_name = [], position = p, masterPos = p, spawnMonster = True,
      health = 100, removed = False, master = None, m_summons = [], faction = 0,
      hostile = True, fleeing = False, conditions = [], targetList = [], friendList = [],
      totalPlayersOnScreen = 0, attackedCreature = None, followCreature = None,
      hasFollowPath = False, isIdle = False, isWalkingBack = False,
      targetDistance = mt_targetDistance t, attackTicks = 0, defenseTicks = 0,
      extraMeleeAttack = False, lastMeleeAttack = 0, minCombatValue = 0, maxCombatValue = 0,
      targetChangeTicks = 0, m_targetChangeCooldown = 0, challengeFocusDuration = 0,
      stepDuration = 0, castLog = [], creatureCheck = True,
      dead = False\<rparr>"

text \<open>A small party: player 1 owns the summon 10, player 2 is a partner of player 1.\<close>

definition partyWorld :: world where
  "partyWorld = (\<lambda>i. if i = 1 then Some (mkCreature 1 KindPlayer None origin)
                    else if i = 2 then Some (mkCreature 2 KindPlayer None origin)
                    else None)"

definition partyPartner :: "nat \<Rightarrow> nat \<Rightarrow> bool" where
  "partyPartner p q = (p = 1 \<and> q = 2 \<or> p = 2 \<and> q = 1)"

definition partySummon :: Monster where
  "partySummon = (freshMonster 10 plainType origin)\<lparr>master := Some 1\<rparr>"

text \<open>A monster whose template changes target every 1000 ms with certainty, with
  template target distance \<open>d\<close>.\<close>

definition restlessMonster :: "int \<Rightarrow> Monster" where
  "restlessMonster d =
     freshMonster 20 (plainType\<lparr>changeTargetSpeed := 1000, changeTargetChance := 100,
                                 mt_targetDistance := d\<rparr>) origin"

text \<open>A monster without a spawn, one tile east of its anchor.\<close>

definition strayMonster :: Monster where
  "strayMonster =
     (freshMonster 30 plainType (mkPos 101 100 7))
       \<lparr>masterPos := mkPos 100 100 7, spawnMonster := False\<rparr>"

definition spawnedMonster :: "Position \<Rightarrow> Monster" where
  "spawnedMonster p = (freshMonster 31 plainType p)\<lparr>masterPos := mkPos 100 100 7\<rparr>"

text \<open>A hostile monster at (100, 100, 7) with one melee-range ability, attacking
  creature 5; the world holds creature 5 at \<open>p\<close>.\<close>

definition meleeSpell :: spellBlock_t where
  "meleeSpell = \<lparr>spell = Some 1, isMelee = True, sb_speed = 2000, sb_range = 1,
                  sb_chance = 100, sb_minCombatValue = 0, sb_maxCombatValue = -20\<rparr>"

definition duelWorld :: "Position \<Rightarrow> world" where
  "duelWorld p = (\<lambda>i. if i = 5 then Some (mkCreature 5 KindPlayer None p) else None)"

definition duelMonster :: "int \<Rightarrow> Monster" where
  "duelMonster d =
     (freshMonster 40 (plainType\<lparr>attackSpells := [meleeSpell], mt_targetDistance := d\<rparr>)
        (mkPos 100 100 7))\<lparr>attackedCreature := Some 5, targetList := [5]\<rparr>"

text \<open>A hostile monster next to its target (creature 5 at (1, 0, 7)) whose single
  attack ability is \<open>sb\<close>.\<close>

definition fighter :: "spellBlock_t \<Rightarrow> Monster" where
  "fighter sb =
     (freshMonster 50 (plainType\<lparr>attackSpells := [sb]\<rparr>) (mkPos 0 0 7))
       \<lparr>attackedCreature := Some 5, targetList := [5]\<rparr>"

definition slowMelee :: spellBlock_t where
  "slowMelee = meleeSpell\<lparr>sb_speed := 2000\<rparr>"

definition melee20 :: spellBlock_t where
  "melee20 = meleeSpell\<lparr>sb_speed := 20\<rparr>"

definition bolt20 :: spellBlock_t where
  "bolt20 = \<lparr>spell = Some 2, isMelee = False, sb_speed = 20, sb_range = 7,
              sb_chance = 100, sb_minCombatValue = 0, sb_maxCombatValue = -50\<rparr>"

text \<open>A melee monster at (10, 10, 7) with three targets in its list, at Chebyshev
  distances 3, 5 and 2, all of the default faction; following and attacking always
  succeed and set the respective reference.\<close>

definition trioWorld :: world where
  "trioWorld = (\<lambda>i. if i = 11 then Some (mkCreature 11 KindPlayer None (mkPos 13 10 7))
                   else if i = 12 then Some (mkCreature 12 KindPlayer None (mkPos 10 15 7))
                   else if i = 13 then Some (mkCreature 13 KindPlayer None (mkPos 12 8 7))
                   else None)"

definition trioMonster :: Monster where
  "trioMonster = (freshMonster 60 plainType (mkPos 10 10 7))\<lparr>targetList := [11, 12, 13]\<rparr>"

definition plainEnv :: TargetEnv where
  "plainEnv =
     \<lparr>e_isSightClear = (\<lambda>_ _. True), canSeeCreature = (\<lambda>_. True),
      e_isEnemyFaction = (\<lambda>_. False), damageTotal = (\<lambda>_. None),
      setAttackedCreature = (\<lambda>c m. (True, m\<lparr>attackedCreature := Some (cid c)\<rparr>)),
      setFollowCreature = (\<lambda>c m. (True, m\<lparr>followCreature := Some (cid c)\<rparr>))\<rparr>"





text \<open>A necromancer (id 80) in combat with creature 5, owning the summons 81 and 82.\<close>

definition crypt :: Game where
  "crypt =
     \<lparr>creatures = (\<lambda>i. if i = 5 then Some (mkCreature 5 KindPlayer None origin)
                        else if i = 81 then Some (mkCreature 81 KindMonster (Some 80) origin)
                        else if i = 82 then Some (mkCreature 82 KindMonster (Some 80) origin)
                        else None),
      monsterAutoID = 83\<rparr>"

definition necromancer :: Monster where
  "necromancer =
     (freshMonster 80 plainType origin)
       \<lparr>attackedCreature := Some 5, targetList := [5], friendList := [81, 82],
        m_summons := [Some 81, None, Some 82]\<rparr>"

text \<open>The same monster with two abilities: a bolt of period 2000 followed by the bolt
  of period 20.\<close>

definition slowBolt :: spellBlock_t where
  "slowBolt = bolt20\<lparr>spell := Some 3, sb_speed := 2000\<rparr>"

definition pairFighter :: Monster where
  "pairFighter =
     (freshMonster 50 (plainType\<lparr>attackSpells := [slowBolt, bolt20]\<rparr>) (mkPos 0 0 7))
       \<lparr>attackedCreature := Some 5, targetList := [5]\<rparr>"

section \<open>Theorems\<close>

text \<open>C9: for a summon whose master is a player, \<open>isOpponent\<close> is true of every
  non-null creature other than the master and false of the master (and of the null
  pointer); in particular a player who is a partner of the master, and is not the
  master, is classified as a friend by \<open>isFriend\<close> and as an opponent by
  \<open>isOpponent\<close> at the same time, and so is a summon of another player.\<close>

theorem player_summon_isOpponent:
  assumes "getMaster w m = Some mst" and "getPlayer mst \<noteq> None"
  shows "(\<forall>c. isOpponent w ef m (Some c) = (cid c \<noteq> cid mst))
       \<and> (\<forall>c. getPlayer c \<noteq> None \<and> cid c \<noteq> cid mst \<and> isPartner (cid mst) (cid c)
            \<longrightarrow> isFriend w isPartner m c \<and> isOpponent w ef m (Some c))
       \<and> (\<forall>c q. c_getMaster w c = Some q \<and> getPlayer q \<noteq> None \<and> cid c \<noteq> cid mst
            \<longrightarrow> isOpponent w ef m (Some c))"
  using assms
  by (auto simp: isOpponent_def isFriend_def getPlayer_def Let_def split: option.splits if_splits)

theorem player_summon_isOpponent_witness:
  "getMaster partyWorld partySummon = Some (mkCreature 1 KindPlayer None origin)
   \<and> getPlayer (mkCreature 1 KindPlayer None origin) \<noteq> None
   \<and> isFriend partyWorld partyPartner partySummon (mkCreature 2 KindPlayer None origin)
   \<and> isOpponent partyWorld (\<lambda>_. False) partySummon (Some (mkCreature 2 KindPlayer None origin))
   \<and> \<not> isOpponent partyWorld (\<lambda>_. False) partySummon (Some (mkCreature 1 KindPlayer None origin))"
proof -
  have h1: "getMaster partyWorld partySummon = Some (mkCreature 1 KindPlayer None origin)"
    by (simp add: getMaster_def partyWorld_def partySummon_def freshMonster_def)
  have h2: "getPlayer (mkCreature 1 KindPlayer None origin) \<noteq> None"
    by (simp add: getPlayer_def mkCreature_def)
  show ?thesis
    using h1 h2
      player_summon_isOpponent [OF h1 h2, of "\<lambda>_. False" partyPartner]
    by (simp add: getPlayer_def mkCreature_def partyPartner_def)
qed

text \<open>C1, as stated, fails: with a melee template (target distance 1) the governor
  fires and calls \<open>searchTarget\<close> with the random strategy, not the nearest one; with
  a ranged template (target distance 4) it calls it with the nearest strategy, not
  the weighted default.\<close>

theorem onThinkTarget_strategy_counterexample:
  "governorFires (\<lambda>_. None) 1000 50 (restlessMonster 1)
   \<and> targetDistance (restlessMonster 1) \<le> 1
   \<and> snd (onThinkTarget (\<lambda>_. None) 1000 50 (restlessMonster 1)) \<noteq> Some TARGETSEARCH_NEAREST
   \<and> governorFires (\<lambda>_. None) 1000 50 (restlessMonster 4)
   \<and> \<not> targetDistance (restlessMonster 4) \<le> 1
   \<and> snd (onThinkTarget (\<lambda>_. None) 1000 50 (restlessMonster 4)) \<noteq> Some TARGETSEARCH_DEFAULT"
  by (simp add: governorFires_def onThinkTarget_def restlessMonster_def freshMonster_def
      plainType_def isSummon_def getMaster_def Let_def)

text \<open>C1, amended: \<open>onThinkTarget\<close> calls \<open>searchTarget\<close> exactly when the governor
  fires, and then with the random strategy if the target distance of the monster's
  template is at most 1, and with the nearest strategy otherwise.\<close>

theorem onThinkTarget_strategy:
  "snd (onThinkTarget w interval rnd m) =
     (if governorFires w interval rnd m
      then Some (if mt_targetDistance (mType m) \<le> 1
                 then TARGETSEARCH_RANDOM else TARGETSEARCH_NEAREST)
      else None)"
  by (auto simp: onThinkTarget_def governorFires_def Let_def split: if_splits)

theorem onThinkTarget_strategy_witness:
  "governorFires (\<lambda>_. None) 1000 50 (restlessMonster 1)
   \<and> snd (onThinkTarget (\<lambda>_. None) 1000 50 (restlessMonster 1)) = Some TARGETSEARCH_RANDOM
   \<and> snd (onThinkTarget (\<lambda>_. None) 1000 50 (restlessMonster 4)) = Some TARGETSEARCH_NEAREST
   \<and> snd (onThinkTarget (\<lambda>_. None) 1000 150 (restlessMonster 4)) = None
   \<and> snd (onThinkTarget (\<lambda>_. None) 4294967295 50
             ((restlessMonster 4)\<lparr>m_targetChangeCooldown := 500\<rparr>)) = None"
  using onThinkTarget_strategy [of "\<lambda>_. None" 1000 50 "restlessMonster 1"]
    onThinkTarget_strategy [of "\<lambda>_. None" 1000 50 "restlessMonster 4"]
    onThinkTarget_strategy [of "\<lambda>_. None" 1000 150 "restlessMonster 4"]
    onThinkTarget_strategy [of "\<lambda>_. None" 4294967295 50
      "(restlessMonster 4)\<lparr>m_targetChangeCooldown := 500\<rparr>"]
  by (simp add: governorFires_def restlessMonster_def freshMonster_def
      plainType_def isSummon_def getMaster_def)

text \<open>C7, as stated, fails: a non-summon monster without conditions and targets that
  is off its anchor but has no spawn becomes idle and does not start walking back; and
  one that stands on its anchor with no health left does not become idle.\<close>

theorem updateIdleStatus_counterexample:
  "\<not> isSummon (\<lambda>_. None) strayMonster \<and> conditions strayMonster = []
   \<and> targetList strayMonster = [] \<and> position strayMonster \<noteq> masterPos strayMonster
   \<and> isIdle (updateIdleStatus (\<lambda>_. None) strayMonster)
   \<and> \<not> isWalkingBack (updateIdleStatus (\<lambda>_. None) strayMonster)
   \<and> position ((spawnedMonster (mkPos 100 100 7))\<lparr>health := 0\<rparr>)
       = masterPos ((spawnedMonster (mkPos 100 100 7))\<lparr>health := 0\<rparr>)
   \<and> \<not> isIdle (updateIdleStatus (\<lambda>_. None) ((spawnedMonster (mkPos 100 100 7))\<lparr>health := 0\<rparr>))"
  by (simp add: updateIdleStatus_def setIdle_def isInSpawnLocation_def strayMonster_def
      spawnedMonster_def freshMonster_def isSummon_def getMaster_def mkPos_def Let_def)

text \<open>C7, amended: for a non-summon monster that is alive and not removed, has no
  active conditions and an empty target list, re-evaluating the idle status makes it
  idle if it stands on its spawn anchor; if it is off the anchor, has a spawn and its
  anchor is not the default position, it enters the walking-back state and is not
  idle.\<close>

theorem updateIdleStatus_anchor:
  assumes "\<not> isSummon w m" and "conditions m = []" and "targetList m = []"
    and "\<not> removed m" and "0 < health m"
  shows "(position m = masterPos m \<longrightarrow> isIdle (updateIdleStatus w m))
       \<and> (position m \<noteq> masterPos m \<and> spawnMonster m
            \<and> masterPos m \<noteq> \<lparr>pos_x = 0, pos_y = 0, pos_z = 0\<rparr>
          \<longrightarrow> isWalkingBack (updateIdleStatus w m) \<and> \<not> isIdle (updateIdleStatus w m))"
  using assms
  by (simp add: updateIdleStatus_def setIdle_def isInSpawnLocation_def Let_def)

theorem updateIdleStatus_anchor_witness:
  "isIdle (updateIdleStatus (\<lambda>_. None) (spawnedMonster (mkPos 100 100 7)))
   \<and> isWalkingBack (updateIdleStatus (\<lambda>_. None) (spawnedMonster (mkPos 101 100 7)))
   \<and> \<not> isIdle (updateIdleStatus (\<lambda>_. None) (spawnedMonster (mkPos 101 100 7)))"
proof -
  have a: "\<not> isSummon (\<lambda>_. None) (spawnedMonster p)" for p
    by (simp add: isSummon_def getMaster_def spawnedMonster_def freshMonster_def)
  have b: "conditions (spawnedMonster p) = []" "targetList (spawnedMonster p) = []"
    "\<not> removed (spawnedMonster p)" "0 < health (spawnedMonster p)" for p
    by (simp_all add: spawnedMonster_def freshMonster_def)
  show ?thesis
    using updateIdleStatus_anchor [OF a b, of "mkPos 100 100 7"]
      updateIdleStatus_anchor [OF a b, of "mkPos 101 100 7"]
    by (simp add: spawnedMonster_def freshMonster_def mkPos_def)
qed

text \<open>C2: the dance-step routine should return false without proposing a move when the
  monster is farther from its target than its target distance (the comment on the guard
  reads: monsters not at targetDistance shouldn't dancestep). The guard of the code is
  one-sided: a monster at (100, 100, 7) with target distance 1 whose target stands 3
  tiles to the east, at Chebyshev distance 3, passes it, and with free tiles around it
  \<open>getDanceStep\<close> returns true and proposes a step north.\<close>

theorem getDanceStep_farther_still_dances:
  "getAttackedCreature (duelWorld (mkPos 103 100 7)) (duelMonster 1)
     = Some (mkCreature 5 KindPlayer None (mkPos 103 100 7))
   \<and> position (duelMonster 1) = mkPos 100 100 7
   \<and> max (getDistanceX (mkPos 100 100 7) (mkPos 103 100 7))
          (getDistanceY (mkPos 100 100 7) (mkPos 103 100 7)) = 3
   \<and> targetDistance (duelMonster 1) = 1
   \<and> getDanceStep (\<lambda>_ _. True) (\<lambda>_ _. True) (\<lambda>ds. ds) 0 (duelWorld (mkPos 103 100 7))
        (duelMonster 1) (mkPos 100 100 7) True True = (True, Some DIRECTION_NORTH)"
  by (simp add: getDanceStep_def danceCandidate_def canUseAttack_def getAttackedCreature_def
      duelWorld_def duelMonster_def freshMonster_def plainType_def meleeSpell_def
      mkCreature_def mkPos_def getOffsetX_def getOffsetY_def getDistanceX_def
      getDistanceY_def u32_def u16_def Let_def)

lemma stepAxis_blocked:
  "\<forall>d. \<not> cw d \<Longrightarrow> stepAxis cw coin flee off away a b da db toward = (True, None)"
  by (simp add: stepAxis_def)

lemma stepAxisWest_blocked:
  "\<forall>d. \<not> cw d \<Longrightarrow> stepAxisWest cw coin flee off = (True, None)"
  by (simp add: stepAxisWest_def)

lemma stepDiagonal_blocked:
  assumes "\<forall>d. \<not> cw d"
  shows "stepDiagonalNW cw coin flee = (True, None)"
    and "stepDiagonalSE cw coin flee = (True, None)"
    and "stepDiagonalSW cw coin flee = (True, None)"
    and "stepDiagonalNE cw coin flee = (True, None)"
  using assms
  by (simp_all add: stepDiagonalNW_def stepDiagonalSE_def stepDiagonalSW_def stepDiagonalNE_def)

text \<open>C10: \<open>getDistanceStep\<close> can return true without assigning the move direction.
  Whenever the function gets past its two early returns (it flees, or it is closer
  than the target distance with a clear line of sight), the target is not on the
  monster's own tile and every direction is blocked, the decision table assigns
  nothing and the function still returns true; for a target that is not on a diagonal
  this is the \<^verbatim>\<open>break\<close> out of the switch followed by the final \<^verbatim>\<open>return true\<close>.\<close>

theorem getDistanceStep_blocked_returns_true_unassigned:
  assumes "flee \<or> (max (getDistanceX (position m) targetPos) (getDistanceY (position m) targetPos)
                      < targetDistance m \<and> isSightClear (position m) targetPos)"
    and "getOffsetX (position m) targetPos \<noteq> 0 \<or> getOffsetY (position m) targetPos \<noteq> 0"
    and "\<forall>d. \<not> canWalkTo (position m) d"
  shows "fst (getDistanceStep isSightClear canWalkTo shuffle coin m targetPos flee) = True
       \<and> fst (snd (getDistanceStep isSightClear canWalkTo shuffle coin m targetPos flee)) = None"
proof -
  have early: "\<not> (\<not> flee \<and> (max (getDistanceX (position m) targetPos)
                                  (getDistanceY (position m) targetPos) > targetDistance m
                             \<or> \<not> isSightClear (position m) targetPos))"
       "\<not> (\<not> flee \<and> max (getDistanceX (position m) targetPos)
                          (getDistanceY (position m) targetPos) = targetDistance m)"
    using assms(1) by auto
  have same: "\<not> (getOffsetX (position m) targetPos = 0 \<and> getOffsetY (position m) targetPos = 0)"
    using assms(2) by auto
  show ?thesis
    unfolding getDistanceStep_def Let_def
    by (simp only: early same if_False split_def)
       (simp add: stepAxis_blocked stepAxisWest_blocked stepDiagonal_blocked assms(3))
qed

theorem getDistanceStep_blocked_returns_true_unassigned_witness:
  "fst (getDistanceStep (\<lambda>_ _. True) (\<lambda>_ _. False) (\<lambda>ds. ds) True
          (freshMonster 1 plainType (mkPos 0 0 7)) (mkPos 0 3 7) True) = True
   \<and> fst (snd (getDistanceStep (\<lambda>_ _. True) (\<lambda>_ _. False) (\<lambda>ds. ds) True
          (freshMonster 1 plainType (mkPos 0 0 7)) (mkPos 0 3 7) True)) = None
   \<and> getDistanceX (mkPos 0 0 7) (mkPos 0 3 7) \<noteq> getDistanceY (mkPos 0 0 7) (mkPos 0 3 7)"
  using getDistanceStep_blocked_returns_true_unassigned
    [of True "freshMonster 1 plainType (mkPos 0 0 7)" "mkPos 0 3 7" "\<lambda>_ _. True"
        "\<lambda>_ _. False" "\<lambda>ds. ds" True]
  by (simp add: freshMonster_def mkPos_def getOffsetX_def getOffsetY_def getDistanceX_def
      getDistanceY_def)

text \<open>C3, as stated, fails: the only attack ability is a melee swing of period 2000;
  the last out-of-range swing was recorded 1000 ms ago, so \<open>canUseSpell\<close> leaves before
  its period test. After a tick of 1000 the accumulator is reset to zero although no
  ability was ready (nothing is cast) and the ability's period, 2000, exceeds the
  accumulator, 1000.\<close>

theorem doAttacking_reset_counterexample:
  "attackSpells (mType (fighter slowMelee)) = [slowMelee]
   \<and> attackTicks ((fighter slowMelee)\<lparr>lastMeleeAttack := 5000\<rparr>) + 1000 < sb_speed slowMelee
   \<and> (\<exists>m'. doAttacking (duelWorld (mkPos 1 0 7)) (\<lambda>_. 6000) (\<lambda>_. 1) 1000
              ((fighter slowMelee)\<lparr>lastMeleeAttack := 5000\<rparr>) = Some m'
           \<and> attackTicks m' = 0 \<and> castLog m' = [])"
  by (simp add: doAttacking_def attackSpellRound_def canUseSpell_def getAttackedCreature_def isSummon_def
      getMaster_def duelWorld_def fighter_def slowMelee_def meleeSpell_def freshMonster_def
      plainType_def Let_def)

text \<open>C4, as stated, fails for a melee ability with an extra swing pending: with period
  20 and interval 10 it is cast in the first tick, at accumulator 10.\<close>

theorem doAttacking_period20_counterexample:
  "sb_speed melee20 = 20
   \<and> attackTicks ((fighter melee20)\<lparr>extraMeleeAttack := True\<rparr>) + 10 = 10
   \<and> (\<exists>m'. doAttacking (duelWorld (mkPos 1 0 7)) (\<lambda>_. 6000) (\<lambda>_. 1) 10
              ((fighter melee20)\<lparr>extraMeleeAttack := True\<rparr>) = Some m'
           \<and> castLog m' = [(1, 5)])"
  by (simp add: doAttacking_def attackSpellRound_def canUseSpell_def getAttackedCreature_def isSummon_def
      getMaster_def duelWorld_def fighter_def melee20_def meleeSpell_def freshMonster_def
      plainType_def mkCreature_def mkPos_def getDistanceX_def getDistanceY_def
      getOffsetX_def getOffsetY_def u32_def Let_def)

lemma canUseSpell_frame:
  assumes "canUseSpell m now pos tp sb iv rt = Some (ok, inR, rt', m1)"
  shows "attackTicks m1 = attackTicks m" and "rt' \<longrightarrow> rt" and "fleeing m1 = fleeing m"
    and "castLog m1 = castLog m" and "extraMeleeAttack m1 = extraMeleeAttack m"
    and "position m1 = position m" and "mType m1 = mType m"
  using assms by (auto simp: canUseSpell_def Let_def split: if_splits)

lemma attackSpellRound_frame:
  assumes "attackSpellRound now roll p a iv sb (rt, m) = Some (rt', m')"
  shows "attackTicks m' = attackTicks m" and "rt' \<longrightarrow> rt"
proof -
  show "attackTicks m' = attackTicks m"
    using assms
    by (auto simp: attackSpellRound_def Let_def
        split: option.splits if_splits prod.splits dest: canUseSpell_frame(1))
  show "rt' \<longrightarrow> rt"
    using assms
    by (auto simp: attackSpellRound_def Let_def
        split: option.splits if_splits prod.splits dest: canUseSpell_frame(2))
qed

lemma attackSpellsLoop_frame:
  "attackSpellsLoop now roll p a iv i sbs (rt, m) = Some (rt', m')
   \<Longrightarrow> attackTicks m' = attackTicks m \<and> (rt' \<longrightarrow> rt)"
proof (induction sbs arbitrary: i rt m)
  case Nil
  then show ?case by simp
next
  case (Cons sb sbs)
  from Cons.prems obtain rt1 m1 where
    r: "attackSpellRound (now i) (roll i) p a iv sb (rt, m) = Some (rt1, m1)"
    and l: "attackSpellsLoop now roll p a iv (Suc i) sbs (rt1, m1) = Some (rt', m')"
    by (auto split: option.splits)
  from Cons.IH [OF l] attackSpellRound_frame [OF r]
  show ?case by simp
qed

lemma attackSpellsLoop_append:
  "attackSpellsLoop now roll p a iv i (xs @ ys) s =
     (case attackSpellsLoop now roll p a iv i xs s of
        None \<Rightarrow> None
      | Some s1 \<Rightarrow> attackSpellsLoop now roll p a iv (i + length xs) ys s1)"
  by (induction xs arbitrary: i s) (auto split: option.splits)

lemma canUseSpell_pending:
  assumes "isMelee sb \<longrightarrow> \<not> fleeing m \<and> \<not> extraMeleeAttack m \<and> 1500 \<le> now - lastMeleeAttack m"
    and "attackTicks m < sb_speed sb"
  shows "\<exists>m1. canUseSpell m now pos tp sb iv rt = Some (False, True, False, m1)"
  using assms by (auto simp: canUseSpell_def Let_def)

lemma attackSpellRound_pending:
  assumes "spell sb \<noteq> None"
    and "isMelee sb \<longrightarrow> \<not> fleeing m \<and> \<not> extraMeleeAttack m \<and> 1500 \<le> now - lastMeleeAttack m"
    and "attackTicks m < sb_speed sb"
  shows "\<exists>m1. attackSpellRound now roll p a iv sb (rt, m) = Some (False, m1)"
proof -
  from canUseSpell_pending [OF assms(2,3)] obtain m1 where
    "canUseSpell m now p (c_position a) sb iv rt = Some (False, True, False, m1)"
    by blast
  then show ?thesis
    using assms(1,2) by (auto simp: attackSpellRound_def Let_def)
qed

lemma doAttacking_pending_keeps:
  assumes run: "doAttacking w now roll interval m = Some m'"
    and att: "getAttackedCreature w m = Some a" "\<not> (isSummon w m \<and> cid a = mid m)"
    and split: "attackSpells (mType m) = pre @ sb # post"
    and before: "attackSpellsLoop now roll (position m) a interval 0 pre
                   (interval \<noteq> 0, m\<lparr>attackTicks := attackTicks m + interval\<rparr>) = Some (rt1, m1)"
    and reached: "spell sb \<noteq> None"
      "isMelee sb \<longrightarrow> \<not> fleeing m1 \<and> \<not> extraMeleeAttack m1
                      \<and> 1500 \<le> now (length pre) - lastMeleeAttack m1"
    and pending: "interval = 0 \<or> attackTicks m + interval < sb_speed sb"
  shows "attackTicks m' = attackTicks m + interval"
proof -
  let ?m0 = "m\<lparr>attackTicks := attackTicks m + interval\<rparr>"
  from run att obtain rt mf where
    loop: "attackSpellsLoop now roll (position m) a interval 0 (pre @ sb # post)
             (interval \<noteq> 0, ?m0) = Some (rt, mf)"
    and res: "m' = (if rt then mf\<lparr>attackTicks := 0\<rparr> else mf)"
    by (auto simp: doAttacking_def Let_def split split: option.splits)
  have t1: "attackTicks m1 = attackTicks m + interval" and r1: "rt1 \<longrightarrow> interval \<noteq> 0"
    using attackSpellsLoop_frame [OF before] by simp_all
  from loop before obtain s2 where
    round: "attackSpellRound (now (length pre)) (roll (length pre)) (position m) a interval sb
              (rt1, m1) = Some s2"
    and rest: "attackSpellsLoop now roll (position m) a interval (Suc (length pre)) post s2
                 = Some (rt, mf)"
    by (auto simp: attackSpellsLoop_append split: option.splits)
  obtain rt2 m2 where s2: "s2 = (rt2, m2)" by (cases s2)
  have t2: "attackTicks m2 = attackTicks m + interval" and r2: "rt2 \<longrightarrow> rt1"
    using attackSpellRound_frame [OF round [unfolded s2]] t1 by simp_all
  have tf: "attackTicks mf = attackTicks m + interval" and rf: "rt \<longrightarrow> rt2"
    using attackSpellsLoop_frame [OF rest [unfolded s2]] t2 by simp_all
  have "\<not> rt"
  proof (cases "interval = 0")
    case True
    then show ?thesis using r1 r2 rf by simp
  next
    case False
    then have "attackTicks m1 < sb_speed sb" using pending t1 by simp
    from attackSpellRound_pending [OF reached(1) reached(2) this]
    obtain mx where "attackSpellRound (now (length pre)) (roll (length pre)) (position m) a
                       interval sb (rt1, m1) = Some (False, mx)"
      by blast
    then have "\<not> rt2" using round s2 by simp
    then show ?thesis using rf by simp
  qed
  then show ?thesis using res tf by simp
qed

lemma doAttacking_zero_interval:
  assumes "doAttacking w now roll 0 m = Some m'"
  shows "attackTicks m' = attackTicks m"
proof (cases "getAttackedCreature w m")
  case None
  with assms show ?thesis by (simp add: doAttacking_def)
next
  case (Some a)
  show ?thesis
  proof (cases "isSummon w m \<and> cid a = mid m")
    case True
    with assms Some show ?thesis by (simp add: doAttacking_def)
  next
    case False
    with assms Some obtain rt mf where
      loop: "attackSpellsLoop now roll (position m) a 0 0 (attackSpells (mType m)) (False, m)
               = Some (rt, mf)"
      and res: "m' = (if rt then mf\<lparr>attackTicks := 0\<rparr> else mf)"
      by (auto simp: doAttacking_def Let_def split: option.splits)
    from attackSpellsLoop_frame [OF loop] res show ?thesis by simp
  qed
qed

text \<open>C3, amended: after the attack-ability loop of \<open>doAttacking\<close> the accumulator is
  never reset when the interval is zero, and it is never reset while the period of an
  attack ability whose cooldown test is evaluated in this round exceeds the
  accumulator: it then keeps the old value plus the interval. The test is evaluated for
  an ability that has a spell, unless it is a melee ability and the monster flees, an
  extra swing is pending, or the last recorded out-of-range swing is less than 1500 ms
  old (\<open>pre\<close> are the abilities before it in the list and \<open>m1\<close> is the monster when its
  round starts).\<close>

theorem doAttacking_no_reset_while_pending:
  assumes "doAttacking w now roll interval m = Some m'"
  shows "(interval = 0 \<longrightarrow> attackTicks m' = attackTicks m)
       \<and> (\<forall>a pre sb post rt1 m1.
            getAttackedCreature w m = Some a \<and> \<not> (isSummon w m \<and> cid a = mid m)
            \<and> attackSpells (mType m) = pre @ sb # post
            \<and> attackSpellsLoop now roll (position m) a interval 0 pre
                 (interval \<noteq> 0, m\<lparr>attackTicks := attackTicks m + interval\<rparr>) = Some (rt1, m1)
            \<and> spell sb \<noteq> None
            \<and> (isMelee sb \<longrightarrow> \<not> fleeing m1 \<and> \<not> extraMeleeAttack m1
                  \<and> 1500 \<le> now (length pre) - lastMeleeAttack m1)
            \<and> attackTicks m + interval < sb_speed sb
            \<longrightarrow> attackTicks m' = attackTicks m + interval)"
proof (intro conjI impI allI)
  assume "interval = 0"
  with assms show "attackTicks m' = attackTicks m"
    using doAttacking_zero_interval [of w now roll m m'] by simp
next
  fix a pre sb post rt1 m1
  assume h: "getAttackedCreature w m = Some a \<and> \<not> (isSummon w m \<and> cid a = mid m)
            \<and> attackSpells (mType m) = pre @ sb # post
            \<and> attackSpellsLoop now roll (position m) a interval 0 pre
                 (interval \<noteq> 0, m\<lparr>attackTicks := attackTicks m + interval\<rparr>) = Some (rt1, m1)
            \<and> spell sb \<noteq> None
            \<and> (isMelee sb \<longrightarrow> \<not> fleeing m1 \<and> \<not> extraMeleeAttack m1
                  \<and> 1500 \<le> now (length pre) - lastMeleeAttack m1)
            \<and> attackTicks m + interval < sb_speed sb"
  then have p: "interval = 0 \<or> attackTicks m + interval < sb_speed sb"
    by blast
  from h show "attackTicks m' = attackTicks m + interval"
    using doAttacking_pending_keeps
      [where now = now and pre = pre and ?m1.0 = m1, OF assms _ _ _ _ _ _ p]
    by blast
qed

theorem doAttacking_no_reset_while_pending_witness:
  "attackSpells (mType (fighter slowMelee)) = [] @ slowMelee # []
   \<and> spell slowMelee \<noteq> None
   \<and> (\<exists>m'. doAttacking (duelWorld (mkPos 1 0 7)) (\<lambda>_. 6000) (\<lambda>_. 1) 1000
              (fighter slowMelee) = Some m' \<and> attackTicks m' = 1000)
   \<and> (\<exists>m'. doAttacking (duelWorld (mkPos 1 0 7)) (\<lambda>_. 6000) (\<lambda>_. 1) 0
              ((freshMonster 50 plainType (mkPos 0 0 7))
                 \<lparr>attackedCreature := Some 5, attackTicks := 700\<rparr>) = Some m'
           \<and> attackTicks m' = 700)"
proof -
  let ?w = "duelWorld (mkPos 1 0 7)"
  let ?a = "mkCreature 5 KindPlayer None (mkPos 1 0 7)"
  let ?m0 = "(fighter slowMelee)\<lparr>attackTicks := attackTicks (fighter slowMelee) + 1000\<rparr>"
  let ?idle = "(freshMonster 50 plainType (mkPos 0 0 7))
                 \<lparr>attackedCreature := Some 5, attackTicks := 700\<rparr>"
  obtain m' where run: "doAttacking ?w (\<lambda>_. 6000) (\<lambda>_. 1) 1000 (fighter slowMelee) = Some m'"
    by (simp add: doAttacking_def attackSpellRound_def canUseSpell_def getAttackedCreature_def
        isSummon_def getMaster_def duelWorld_def fighter_def slowMelee_def meleeSpell_def
        freshMonster_def plainType_def Let_def)
  obtain n' where run0: "doAttacking ?w (\<lambda>_. 6000) (\<lambda>_. 1) 0 ?idle = Some n'"
    by (simp add: doAttacking_def getAttackedCreature_def isSummon_def getMaster_def
        duelWorld_def freshMonster_def plainType_def Let_def)
  have h: "getAttackedCreature ?w (fighter slowMelee) = Some ?a
      \<and> \<not> (isSummon ?w (fighter slowMelee) \<and> cid ?a = mid (fighter slowMelee))
      \<and> attackSpells (mType (fighter slowMelee)) = [] @ slowMelee # []
      \<and> attackSpellsLoop (\<lambda>_. 6000) (\<lambda>_. 1) (position (fighter slowMelee)) ?a 1000 0 []
           ((1000::32 word) \<noteq> 0, ?m0) = Some (True, ?m0)
      \<and> spell slowMelee \<noteq> None
      \<and> (isMelee slowMelee \<longrightarrow> \<not> fleeing ?m0 \<and> \<not> extraMeleeAttack ?m0
            \<and> 1500 \<le> (\<lambda>_. 6000) (length ([]::spellBlock_t list)) - lastMeleeAttack ?m0)
      \<and> attackTicks (fighter slowMelee) + 1000 < sb_speed slowMelee"
    by (simp add: getAttackedCreature_def duelWorld_def fighter_def freshMonster_def
        isSummon_def getMaster_def plainType_def slowMelee_def meleeSpell_def)
  from doAttacking_no_reset_while_pending [OF run] h
  have "attackTicks m' = attackTicks (fighter slowMelee) + 1000"
    by blast
  then have one: "attackTicks m' = 1000"
    by (simp add: fighter_def freshMonster_def)
  from doAttacking_no_reset_while_pending [OF run0]
  have two: "attackTicks n' = 700"
    by simp
  from h have "attackSpells (mType (fighter slowMelee)) = [] @ slowMelee # []"
    "spell slowMelee \<noteq> None"
    by blast+
  with run one run0 two show ?thesis by blast
qed

lemma canUseSpell_rejects:
  assumes "isMelee sb \<longrightarrow> \<not> fleeing m \<and> \<not> extraMeleeAttack m \<and> 1500 \<le> now - lastMeleeAttack m"
    and "attackTicks m < sb_speed sb"
  shows "canUseSpell m now pos tp sb iv rt = Some (False, True, False, stampLastMelee now m)"
  using assms by (auto simp: canUseSpell_def Let_def stampLastMelee_def)

lemma canUseSpell_accepts:
  assumes "isMelee sb \<longrightarrow> \<not> fleeing m \<and> \<not> extraMeleeAttack m \<and> 1500 \<le> now - lastMeleeAttack m"
    and "\<not> attackTicks m < sb_speed sb" and "sb_speed sb \<noteq> 0"
    and "attackTicks m mod sb_speed sb < iv"
  shows "canUseSpell m now pos tp sb iv rt =
           (let r = (sb_range sb = 0
                     \<or> max (u32 (getDistanceX pos tp)) (u32 (getDistanceY pos tp)) \<le> sb_range sb)
            in Some (r, r, rt, stampLastMelee now m))"
  using assms
  by (auto simp: canUseSpell_def Let_def stampLastMelee_def less_max_iff_disj not_less)

text \<open>A call of \<open>doAttacking\<close> is the sequence of the rounds of its abilities: the
  rounds of the abilities \<open>pre\<close>, the round of \<open>sb\<close> with the interval added to the
  accumulator, the rounds of \<open>post\<close> and the final reset.\<close>

lemma doAttacking_as_rounds:
  assumes "getAttackedCreature w m = Some a" and "\<not> (isSummon w m \<and> cid a = mid m)"
    and "attackSpells (mType m) = pre @ sb # post"
    and "attackSpellsLoop now roll (position m) a interval 0 pre
           (interval \<noteq> 0, m\<lparr>attackTicks := attackTicks m + interval\<rparr>) = Some (rt1, m1)"
  shows "attackTicks m1 = attackTicks m + interval"
    and "doAttacking w now roll interval m =
           (case attackSpellRound (now (length pre)) (roll (length pre)) (position m) a interval
                   sb (rt1, m1) of
              None \<Rightarrow> None
            | Some s2 \<Rightarrow>
               (case attackSpellsLoop now roll (position m) a interval (Suc (length pre)) post s2 of
                  None \<Rightarrow> None
                | Some (rt, mf) \<Rightarrow> Some (if rt then mf\<lparr>attackTicks := 0\<rparr> else mf)))"
proof -
  show "attackTicks m1 = attackTicks m + interval"
    using attackSpellsLoop_frame [OF assms(4)] by simp
  show "doAttacking w now roll interval m =
           (case attackSpellRound (now (length pre)) (roll (length pre)) (position m) a interval
                   sb (rt1, m1) of
              None \<Rightarrow> None
            | Some s2 \<Rightarrow>
               (case attackSpellsLoop now roll (position m) a interval (Suc (length pre)) post s2 of
                  None \<Rightarrow> None
                | Some (rt, mf) \<Rightarrow> Some (if rt then mf\<lparr>attackTicks := 0\<rparr> else mf)))"
    using assms
    by (auto simp: doAttacking_def Let_def attackSpellsLoop_append split: option.splits)
qed

lemma attackSpellRound_rejected:
  assumes "canUseSpell m now myPos (c_position a) sb iv rt
             = Some (False, True, False, stampLastMelee now m)"
    and "isMelee sb \<longrightarrow> \<not> fleeing m"
  shows "\<exists>rt' m'. attackSpellRound now roll myPos a iv sb (rt, m) = Some (rt', m')
           \<and> castLog m' = castLog m"
  using assms
  by (cases "spell sb") (auto simp: attackSpellRound_def Let_def stampLastMelee_def)

lemma attackSpellRound_accepted:
  assumes "canUseSpell m now myPos (c_position a) sb iv rt = Some (r, r, rt, stampLastMelee now m)"
    and "isMelee sb \<longrightarrow> \<not> fleeing m"
  shows "\<exists>m'. attackSpellRound now roll myPos a iv sb (rt, m) = Some (rt, m')
           \<and> castLog m' = castLog m @
                (case spell sb of
                   None \<Rightarrow> []
                 | Some sp \<Rightarrow> if r \<and> u32 roll \<le> sb_chance sb then [(sp, cid a)] else [])"
  using assms
  by (cases "spell sb") (auto simp: attackSpellRound_def Let_def stampLastMelee_def)

text \<open>C4, amended: take an attack ability with period 20 whose round in the attack loop
  of \<open>doAttacking\<close> runs with interval 10, outside the melee carve-outs (the ability is
  not melee, or the monster does not flee, no extra swing is pending and the last
  recorded out-of-range swing is at least 1500 ms old). At accumulator 10 (after one
  tick) the cooldown test rejects the ability and its round casts nothing; at
  accumulator 20 (after two ticks) the cooldown test accepts it, and its spell is cast in
  its round exactly when its range check (range 0, or Chebyshev distance within the
  range) and its chance roll pass. \<open>m\<close> is the monster when the round starts, with the
  interval already added to the accumulator.\<close>

theorem attackSpellRound_period20:
  assumes "sb_speed sb = 20"
    and "isMelee sb \<longrightarrow> \<not> fleeing m \<and> \<not> extraMeleeAttack m \<and> 1500 \<le> now - lastMeleeAttack m"
  shows "(attackTicks m = 10 \<longrightarrow>
            canUseSpell m now myPos (c_position a) sb 10 rt
              = Some (False, True, False, stampLastMelee now m)
            \<and> (\<exists>rt' m'. attackSpellRound now roll myPos a 10 sb (rt, m) = Some (rt', m')
                  \<and> castLog m' = castLog m))
       \<and> (attackTicks m = 20 \<longrightarrow>
            (let r = (sb_range sb = 0
                      \<or> max (u32 (getDistanceX myPos (c_position a)))
                            (u32 (getDistanceY myPos (c_position a))) \<le> sb_range sb)
             in canUseSpell m now myPos (c_position a) sb 10 rt
                  = Some (r, r, rt, stampLastMelee now m)
                \<and> (\<exists>m'. attackSpellRound now roll myPos a 10 sb (rt, m) = Some (rt, m')
                      \<and> castLog m' = castLog m @
                           (case spell sb of
                              None \<Rightarrow> []
                            | Some sp \<Rightarrow>
                               if r \<and> u32 roll \<le> sb_chance sb then [(sp, cid a)] else []))))"
proof (intro conjI impI)
  assume t: "attackTicks m = 10"
  then have "attackTicks m < sb_speed sb"
    using assms(1) by simp
  from canUseSpell_rejects [OF assms(2) this]
  show "canUseSpell m now myPos (c_position a) sb 10 rt
          = Some (False, True, False, stampLastMelee now m)"
    by simp
  then show "\<exists>rt' m'. attackSpellRound now roll myPos a 10 sb (rt, m) = Some (rt', m')
               \<and> castLog m' = castLog m"
    using attackSpellRound_rejected [where roll = roll] assms(2) by blast
next
  assume t: "attackTicks m = 20"
  let ?r = "sb_range sb = 0
            \<or> max (u32 (getDistanceX myPos (c_position a)))
                  (u32 (getDistanceY myPos (c_position a))) \<le> sb_range sb"
  have p: "\<not> attackTicks m < sb_speed sb" "sb_speed sb \<noteq> 0" "attackTicks m mod sb_speed sb < 10"
    using assms(1) t by simp_all
  have cu: "canUseSpell m now myPos (c_position a) sb 10 rt
              = Some (?r, ?r, rt, stampLastMelee now m)"
    using canUseSpell_accepts [OF assms(2) p] by (simp add: Let_def)
  from attackSpellRound_accepted [where roll = roll, OF cu] assms(2)
  have ex: "\<exists>m'. attackSpellRound now roll myPos a 10 sb (rt, m) = Some (rt, m')
           \<and> castLog m' = castLog m @
                (case spell sb of
                   None \<Rightarrow> []
                 | Some sp \<Rightarrow> if ?r \<and> u32 roll \<le> sb_chance sb then [(sp, cid a)] else [])"
    by blast
  show "let r = ?r
     in canUseSpell m now myPos (c_position a) sb 10 rt = Some (r, r, rt, stampLastMelee now m)
        \<and> (\<exists>m'. attackSpellRound now roll myPos a 10 sb (rt, m) = Some (rt, m')
              \<and> castLog m' = castLog m @
                   (case spell sb of
                      None \<Rightarrow> []
                    | Some sp \<Rightarrow> if r \<and> u32 roll \<le> sb_chance sb then [(sp, cid a)] else []))"
    unfolding Let_def using cu ex by blast
qed

theorem attackSpellRound_period20_witness:
  "sb_speed bolt20 = 20 \<and> attackSpells (mType pairFighter) = [slowBolt, bolt20]
   \<and> (\<exists>rt' m'. attackSpellRound 6000 30 (mkPos 0 0 7) (mkCreature 5 KindPlayer None (mkPos 1 0 7))
                   10 bolt20 (False, pairFighter\<lparr>attackTicks := 10\<rparr>) = Some (rt', m')
          \<and> castLog m' = [])
   \<and> (\<exists>m'. attackSpellRound 6010 30 (mkPos 0 0 7) (mkCreature 5 KindPlayer None (mkPos 1 0 7))
               10 bolt20 (False, pairFighter\<lparr>attackTicks := 20\<rparr>) = Some (False, m')
          \<and> castLog m' = [(2, 5)])
   \<and> (\<exists>m1 m2. doAttacking (duelWorld (mkPos 1 0 7)) (\<lambda>_. 6000) (\<lambda>_. 30) 10 pairFighter = Some m1
          \<and> attackTicks m1 = 10 \<and> castLog m1 = []
          \<and> doAttacking (duelWorld (mkPos 1 0 7)) (\<lambda>_. 6010) (\<lambda>_. 30) 10 m1 = Some m2
          \<and> attackTicks m2 = 20 \<and> castLog m2 = [(2, 5)])"
proof -
  let ?a = "mkCreature 5 KindPlayer None (mkPos 1 0 7)"
  let ?w = "duelWorld (mkPos 1 0 7)"
  let ?m10 = "pairFighter\<lparr>attackTicks := 10\<rparr>"
  let ?m20 = "pairFighter\<lparr>attackTicks := 20\<rparr>"
  have sp: "sb_speed bolt20 = 20"
    by (simp add: bolt20_def)
  have ls: "attackSpells (mType pairFighter) = [slowBolt, bolt20]"
    by (simp add: pairFighter_def freshMonster_def plainType_def)
  have nc: "isMelee bolt20 \<longrightarrow> \<not> fleeing m \<and> \<not> extraMeleeAttack m
              \<and> 1500 \<le> now - lastMeleeAttack m" for m now
    by (simp add: bolt20_def)
  have ev: "castLog ?m10 = []" "castLog ?m20 = []" "attackTicks ?m10 = 10" "attackTicks ?m20 = 20"
    "spell bolt20 = Some 2" "cid ?a = 5"
    "(sb_range bolt20 = 0
      \<or> max (u32 (getDistanceX (mkPos 0 0 7) (c_position ?a)))
            (u32 (getDistanceY (mkPos 0 0 7) (c_position ?a))) \<le> sb_range bolt20)
     \<and> u32 30 \<le> sb_chance bolt20"
    by (simp_all add: pairFighter_def freshMonster_def bolt20_def mkCreature_def mkPos_def
        getDistanceX_def getDistanceY_def getOffsetX_def getOffsetY_def u32_def)
  from attackSpellRound_period20
    [where m = ?m10 and now = 6000 and roll = 30 and myPos = "mkPos 0 0 7" and a = ?a
       and rt = False, OF sp nc] ev
  have r10: "\<exists>rt' m'. attackSpellRound 6000 30 (mkPos 0 0 7) ?a 10 bolt20 (False, ?m10)
                = Some (rt', m') \<and> castLog m' = []"
    by simp
  from attackSpellRound_period20
    [where m = ?m20 and now = 6010 and roll = 30 and myPos = "mkPos 0 0 7" and a = ?a
       and rt = False, OF sp nc] ev(4)
  have "\<exists>m'. attackSpellRound 6010 30 (mkPos 0 0 7) ?a 10 bolt20 (False, ?m20) = Some (False, m')
          \<and> castLog m' = castLog ?m20 @
               (case spell bolt20 of
                  None \<Rightarrow> []
                | Some sp \<Rightarrow>
                   if (sb_range bolt20 = 0
                       \<or> max (u32 (getDistanceX (mkPos 0 0 7) (c_position ?a)))
                             (u32 (getDistanceY (mkPos 0 0 7) (c_position ?a))) \<le> sb_range bolt20)
                      \<and> u32 30 \<le> sb_chance bolt20
                   then [(sp, cid ?a)] else [])"
    unfolding Let_def by blast
  then have r20: "\<exists>m'. attackSpellRound 6010 30 (mkPos 0 0 7) ?a 10 bolt20 (False, ?m20)
                     = Some (False, m') \<and> castLog m' = [(2, 5)]"
    using ev(2,5,6,7) by simp
  have t1: "doAttacking ?w (\<lambda>_. 6000) (\<lambda>_. 30) 10 pairFighter = Some ?m10"
    by (simp add: doAttacking_def attackSpellRound_def canUseSpell_def getAttackedCreature_def
        isSummon_def getMaster_def duelWorld_def pairFighter_def slowBolt_def bolt20_def
        freshMonster_def plainType_def Let_def)
  have t2: "doAttacking ?w (\<lambda>_. 6010) (\<lambda>_. 30) 10 ?m10
              = Some (pairFighter\<lparr>attackTicks := 20, minCombatValue := 0,
                                    maxCombatValue := - 50, castLog := [(2, 5)]\<rparr>)"
    by (simp add: doAttacking_def attackSpellRound_def canUseSpell_def getAttackedCreature_def
        isSummon_def getMaster_def duelWorld_def pairFighter_def slowBolt_def bolt20_def
        freshMonster_def plainType_def mkCreature_def mkPos_def getDistanceX_def
        getDistanceY_def getOffsetX_def getOffsetY_def u32_def Let_def)
  have "\<exists>m1 m2. doAttacking ?w (\<lambda>_. 6000) (\<lambda>_. 30) 10 pairFighter = Some m1
          \<and> attackTicks m1 = 10 \<and> castLog m1 = []
          \<and> doAttacking ?w (\<lambda>_. 6010) (\<lambda>_. 30) 10 m1 = Some m2
          \<and> attackTicks m2 = 20 \<and> castLog m2 = [(2, 5)]"
    using t1 t2 ev(1) by simp
  with sp ls r10 r20 show ?thesis by blast
qed

lemma nearestLoop_minimal:
  "minRange = chebyshev p (c_position t) \<Longrightarrow>
     nearestLoop p 0 cs (t, minRange) \<in> set (t # cs)
     \<and> (\<forall>c \<in> set (t # cs).
           chebyshev p (c_position (nearestLoop p 0 cs (t, minRange)))
             \<le> chebyshev p (c_position c))"
proof (induction cs arbitrary: t minRange)
  case Nil
  then show ?case by simp
next
  case (Cons c cs)
  show ?case
  proof (cases "chebyshev p (c_position c) < minRange")
    case True
    have step: "nearestLoop p 0 (c # cs) (t, minRange)
                  = nearestLoop p 0 cs (c, chebyshev p (c_position c))"
      using True by (auto simp: chebyshev_def Let_def)
    from Cons.IH [of "chebyshev p (c_position c)" c]
    have ih: "nearestLoop p 0 cs (c, chebyshev p (c_position c)) \<in> set (c # cs)"
      "\<forall>d \<in> set (c # cs).
         chebyshev p (c_position (nearestLoop p 0 cs (c, chebyshev p (c_position c))))
           \<le> chebyshev p (c_position d)"
      by simp_all
    from ih(2) have "chebyshev p (c_position (nearestLoop p 0 cs (c, chebyshev p (c_position c))))
                       \<le> chebyshev p (c_position c)"
      by simp
    with True Cons.prems
    have "chebyshev p (c_position (nearestLoop p 0 cs (c, chebyshev p (c_position c))))
            \<le> chebyshev p (c_position t)"
      by simp
    with ih show ?thesis unfolding step by auto
  next
    case False
    have step: "nearestLoop p 0 (c # cs) (t, minRange) = nearestLoop p 0 cs (t, minRange)"
      using False by (auto simp: chebyshev_def Let_def)
    from Cons.IH [OF Cons.prems]
    have ih: "nearestLoop p 0 cs (t, minRange) \<in> set (t # cs)"
      "\<forall>d \<in> set (t # cs).
         chebyshev p (c_position (nearestLoop p 0 cs (t, minRange))) \<le> chebyshev p (c_position d)"
      by simp_all
    from ih(2) have "chebyshev p (c_position (nearestLoop p 0 cs (t, minRange)))
                       \<le> chebyshev p (c_position t)"
      by simp
    with False Cons.prems
    have "chebyshev p (c_position (nearestLoop p 0 cs (t, minRange)))
            \<le> chebyshev p (c_position c)"
      by simp
    with ih show ?thesis unfolding step by auto
  qed
qed

lemma searchNearest_minimal:
  assumes "cs \<noteq> []" and "\<forall>c \<in> set cs. c_faction c = FACTION_DEFAULT"
  shows "\<exists>x \<in> set cs. searchNearest p cs = Some x
           \<and> (\<forall>c \<in> set cs. chebyshev p (c_position x) \<le> chebyshev p (c_position c))"
proof -
  from assms(1) obtain first rest where cs: "cs = first # rest"
    by (cases cs) auto
  have off: "int (c_faction first) * 100 = 0"
    using assms(2) cs by (simp add: FACTION_DEFAULT_def)
  have sn: "searchNearest p cs
              = Some (nearestLoop p 0 rest (first, chebyshev p (c_position first)))"
    by (simp add: searchNearest_def cs off chebyshev_def)
  let ?r = "nearestLoop p 0 rest (first, chebyshev p (c_position first))"
  from nearestLoop_minimal [of "chebyshev p (c_position first)" p first rest]
  have r: "?r \<in> set cs"
    "\<forall>c \<in> set cs. chebyshev p (c_position ?r) \<le> chebyshev p (c_position c)"
    by (simp_all add: cs)
  show ?thesis
    using sn r by blast
qed

text \<open>C5: when \<open>searchTarget\<close> is called with the nearest strategy and the eligible
  candidates (the list \<open>resultList\<close>) lie at Chebyshev distances 3, 5 and 2, in any
  order, all of the default faction, the strategy picks a candidate at distance 2 and
  hands it to \<open>selectTarget\<close>: the call returns true with that selection whenever
  \<open>selectTarget\<close> succeeds on it, and only otherwise falls back to the first selectable
  target of the list.\<close>

theorem searchTarget_nearest_selects_distance_2:
  assumes "(\<lambda>c. chebyshev (position m) (c_position c)) ` set (resultList env w m) = {3, 5, 2}"
    and "\<forall>c \<in> set (resultList env w m). c_faction c = FACTION_DEFAULT"
  shows "\<exists>x \<in> set (resultList env w m).
           chebyshev (position m) (c_position x) = 2
           \<and> searchNearest (position m) (resultList env w m) = Some x
           \<and> searchTarget env w rnd idx TARGETSEARCH_NEAREST m =
               (let (ok, m1) = selectTarget env w x m
                in if ok then (True, m1) else selectFirst env w (getTargetList w m1) m1)"
proof -
  let ?cs = "resultList env w m"
  let ?d = "\<lambda>c. chebyshev (position m) (c_position c)"
  have ne: "?cs \<noteq> []"
    using assms(1) by auto
  from searchNearest_minimal [OF ne assms(2), of "position m"]
  obtain x where x: "x \<in> set ?cs" "searchNearest (position m) ?cs = Some x"
    "\<forall>c \<in> set ?cs. ?d x \<le> ?d c"
    by blast
  have "2 \<in> ?d ` set ?cs"
    using assms(1) by simp
  then obtain c where "c \<in> set ?cs" "?d c = 2"
    by auto
  with x(3) have le: "?d x \<le> 2"
    by force
  have "?d x \<in> {3, 5, 2}"
    using x(1) assms(1) by blast
  with le have two: "?d x = 2"
    by auto
  have "searchTarget env w rnd idx TARGETSEARCH_NEAREST m =
          (let (ok, m1) = selectTarget env w x m
           in if ok then (True, m1) else selectFirst env w (getTargetList w m1) m1)"
    using ne x(2) by (simp add: searchTarget_def resolveSearchType_def Let_def)
  with x(1,2) two show ?thesis
    by blast
qed

theorem searchTarget_nearest_selects_distance_2_witness:
  "(\<lambda>c. chebyshev (position trioMonster) (c_position c))
      ` set (resultList plainEnv trioWorld trioMonster) = {3, 5, 2}
   \<and> length (resultList plainEnv trioWorld trioMonster) = 3
   \<and> fst (searchTarget plainEnv trioWorld 1 0 TARGETSEARCH_NEAREST trioMonster)
   \<and> followCreature (snd (searchTarget plainEnv trioWorld 1 0 TARGETSEARCH_NEAREST trioMonster))
       = Some 13
   \<and> chebyshev (position trioMonster) (mkPos 12 8 7) = 2"
proof -
  let ?c1 = "mkCreature 11 KindPlayer None (mkPos 13 10 7)"
  let ?c2 = "mkCreature 12 KindPlayer None (mkPos 10 15 7)"
  let ?c3 = "mkCreature 13 KindPlayer None (mkPos 12 8 7)"
  have rl: "resultList plainEnv trioWorld trioMonster = [?c1, ?c2, ?c3]"
    by (simp add: resultList_def getTargetList_def List.map_filter_simps trioWorld_def
        trioMonster_def freshMonster_def plainType_def isTarget_def plainEnv_def
        mkCreature_def mkPos_def isSummon_def getMaster_def getPlayer_def FACTION_DEFAULT_def)
  have d: "chebyshev (position trioMonster) (c_position ?c1) = 3"
    "chebyshev (position trioMonster) (c_position ?c2) = 5"
    "chebyshev (position trioMonster) (c_position ?c3) = 2"
    "chebyshev (position trioMonster) (mkPos 12 8 7) = 2"
    by (simp_all add: chebyshev_def getDistanceX_def getDistanceY_def getOffsetX_def
        getOffsetY_def trioMonster_def freshMonster_def mkCreature_def mkPos_def)
  have h1: "(\<lambda>c. chebyshev (position trioMonster) (c_position c))
              ` set (resultList plainEnv trioWorld trioMonster) = {3, 5, 2}"
    by (simp add: rl d)
  have h2: "\<forall>c \<in> set (resultList plainEnv trioWorld trioMonster). c_faction c = FACTION_DEFAULT"
    by (simp add: rl mkCreature_def FACTION_DEFAULT_def)
  from searchTarget_nearest_selects_distance_2 [OF h1 h2, of 1 0]
  obtain x where x: "x \<in> set (resultList plainEnv trioWorld trioMonster)"
    "chebyshev (position trioMonster) (c_position x) = 2"
    "searchTarget plainEnv trioWorld 1 0 TARGETSEARCH_NEAREST trioMonster =
       (let (ok, m1) = selectTarget plainEnv trioWorld x trioMonster
        in if ok then (True, m1) else selectFirst plainEnv trioWorld (getTargetList trioWorld m1) m1)"
    by blast
  from x(1,2) have "x = ?c3"
    using d by (auto simp: rl)
  moreover have "selectTarget plainEnv trioWorld ?c3 trioMonster
                   = (True, trioMonster\<lparr>attackedCreature := Some 13, followCreature := Some 13\<rparr>)"
    by (simp add: selectTarget_def isTarget_def plainEnv_def trioMonster_def freshMonster_def
        mkCreature_def mkPos_def isSummon_def getMaster_def getPlayer_def FACTION_DEFAULT_def)
  ultimately have "searchTarget plainEnv trioWorld 1 0 TARGETSEARCH_NEAREST trioMonster
                     = (True, trioMonster\<lparr>attackedCreature := Some 13, followCreature := Some 13\<rparr>)"
    using x(3) by simp
  then show ?thesis
    using h1 d(4) by (simp add: rl)
qed













lemma releaseSummons_effect:
  "w i = Some c \<Longrightarrow>
     \<exists>c'. releaseSummons ms w i = Some c'
        \<and> (Some i \<in> set ms \<or> (c_health c = 0 \<and> c_master c = None)
             \<longrightarrow> c_health c' = 0 \<and> c_master c' = None)"
proof (induction ms w arbitrary: c rule: releaseSummons.induct)
  case (1 w)
  then show ?case by simp
next
  case (2 rest w)
  then show ?case by simp
next
  case (3 j rest w)
  let ?w = "case w j of None \<Rightarrow> w | Some summon \<Rightarrow> w(j := Some (releaseSummon summon))"
  show ?case
  proof (cases "j = i")
    case True
    with "3.prems" have wi: "?w i = Some (releaseSummon c)"
      by simp
    from "3.IH" [where c = "releaseSummon c", OF wi] obtain c' where
      "releaseSummons rest ?w i = Some c'" "c_health c' = 0 \<and> c_master c' = None"
      by (auto simp: releaseSummon_def Let_def)
    then show ?thesis by simp
  next
    case False
    with "3.prems" have wi: "?w i = Some c"
      by (simp split: option.splits)
    from "3.IH" [where c = c, OF wi] False show ?thesis by simp
  qed
qed

text \<open>C8: after the death routine the attacked-target reference is cleared, the target
  and friend sets are empty and the summon list is empty, and every summon the monster
  owned (every live creature its summon list named) has health zero and a null master
  reference.\<close>

theorem death_releases_everything:
  assumes "death (g, m) = (g', m')"
  shows "attackedCreature m' = None \<and> targetList m' = [] \<and> friendList m' = []
       \<and> m_summons m' = []
       \<and> (\<forall>i c. Some i \<in> set (m_summons m) \<and> creatures g i = Some c
            \<longrightarrow> (\<exists>c'. creatures g' i = Some c' \<and> c_health c' = 0 \<and> c_master c' = None))"
proof -
  have g': "creatures g' = releaseSummons (m_summons m) (creatures g)"
    and m': "m' = m\<lparr>attackedCreature := None, m_summons := [], targetList := [],
                    friendList := [], dead := True\<rparr>"
    using assms by (auto simp: death_def Let_def)
  have "\<exists>c'. creatures g' i = Some c' \<and> c_health c' = 0 \<and> c_master c' = None"
    if "Some i \<in> set (m_summons m)" and "creatures g i = Some c" for i c
    using releaseSummons_effect [where w = "creatures g" and ms = "m_summons m", OF that(2)]
      that(1) g' by auto
  then show ?thesis
    by (simp add: m')
qed

theorem death_releases_everything_witness:
  "attackedCreature (snd (death (crypt, necromancer))) = None
   \<and> targetList (snd (death (crypt, necromancer))) = []
   \<and> friendList (snd (death (crypt, necromancer))) = []
   \<and> Some 82 \<in> set (m_summons necromancer)
   \<and> creatures crypt 82 = Some (mkCreature 82 KindMonster (Some 80) origin)
   \<and> (\<exists>c'. creatures (fst (death (crypt, necromancer))) 82 = Some c'
          \<and> c_health c' = 0 \<and> c_master c' = None)"
proof -
  have a: "death (crypt, necromancer) = (fst (death (crypt, necromancer)), snd (death (crypt, necromancer)))"
    by simp
  have b: "Some 82 \<in> set (m_summons necromancer)"
    by (simp add: necromancer_def freshMonster_def)
  have c: "creatures crypt 82 = Some (mkCreature 82 KindMonster (Some 80) origin)"
    by (simp add: crypt_def)
  from death_releases_everything [OF a] b c show ?thesis
    by blast
qed

end
